theory Spec2Isabelle
  imports Main
begin

text \<open>
  A model of \<^verbatim>\<open>chat-edit-workflow.service.ts\<close>: the service that walks a user through
  choosing editors, uploading a document, following the stream of edits and deciding on
  paragraph edits, and the part of the paragraph edits component that highlights editorial
  feedback. An operation of the service is a function from the service to the new service
  and the list of its effects: the messages it sends, the signals it gives and the requests
  it makes to the backend. What the backend answers is an argument of the operation.
\<close>

section \<open>Data model\<close>

text \<open>
  A field of a JSON object that the code tests against \<^verbatim>\<open>undefined\<close>,
  \<^verbatim>\<open>null\<close>, \<^verbatim>\<open>true\<close> and \<^verbatim>\<open>false\<close>: absent, null or a boolean.
\<close>

datatype jsflag = Absent | JNull | JBool bool

text \<open>\<^verbatim>\<open>EditorialFeedbackItem\<close>: the fields the code reads.\<close>

record EditorialFeedbackItem =
  fb_issue :: "string option"
  fb_fix :: "string option"
  fb_approved :: jsflag

text \<open>
  \<^verbatim>\<open>ParagraphEdit\<close>. The editorial feedback is an object from editor type to feedback
  items; its keys are kept in insertion order, as \<^verbatim>\<open>Object.keys\<close> lists them.
\<close>

record ParagraphEdit =
  index :: int
  original :: string
  edited :: string
  tags :: "string list"
  autoApproved :: jsflag
  approved :: "bool option"
  editorial_feedback :: "(string \<times> EditorialFeedbackItem list) list option"
  displayOriginal :: "string option"
  displayEdited :: "string option"

section \<open>Strings\<close>

text \<open>
  A string of the program is a list of characters. The model covers the characters with a
  code below 256; on these, the white space of \<^verbatim>\<open>String.prototype.trim\<close> and of
  the regular-expression class \<^verbatim>\<open>\s\<close> is tab, line feed, vertical tab, form feed,
  carriage return, space and no-break space, and \<^verbatim>\<open>\d\<close> is an ASCII digit.
  Numbers are mathematical integers: \<^verbatim>\<open>parseInt\<close> on a string of digits is exact.
\<close>

definition is_space :: "char \<Rightarrow> bool" where
  "is_space c = (c \<in> set [CHR 0x09, CHR 0x0A, CHR 0x0B, CHR 0x0C, CHR 0x0D, CHR 0x20, CHR 0xA0])"

definition is_digit :: "char \<Rightarrow> bool" where
  "is_digit c = (c \<in> set ''0123456789'')"

definition trim :: "string \<Rightarrow> string" where
  "trim s = rev (dropWhile is_space (rev (dropWhile is_space s)))"

definition starts_with :: "string \<Rightarrow> string \<Rightarrow> bool" where
  "starts_with pat s = (take (length pat) s = pat)"

text \<open>\<^verbatim>\<open>s.includes(pat)\<close>: the pattern occurs at some offset of the string.\<close>

definition str_includes :: "string \<Rightarrow> string \<Rightarrow> bool" where
  "str_includes s pat = list_ex (\<lambda>i. starts_with pat (drop i s)) [0..<Suc (length s)]"

text \<open>\<^verbatim>\<open>toLowerCase\<close> on one character: ASCII letters and the Latin-1 capitals.\<close>

definition lower_char :: "char \<Rightarrow> char" where
  "lower_char c =
     (let n = of_char c :: nat
      in if (65 \<le> n \<and> n \<le> 90) \<or> (192 \<le> n \<and> n \<le> 222 \<and> n \<noteq> 215)
         then char_of (n + 32) else c)"

definition toLowerCase :: "string \<Rightarrow> string" where
  "toLowerCase s = map lower_char s"

fun digit_val :: "char \<Rightarrow> nat" where
  "digit_val c = of_char c - 48"

text \<open>\<^verbatim>\<open>parseInt\<close> on a string that consists of digits.\<close>

definition parseInt :: "string \<Rightarrow> nat" where
  "parseInt ds = foldl (\<lambda>n c. 10 * n + digit_val c) 0 ds"

section \<open>parseNumericSelection\<close>

definition selection_keywords :: "string list" where
  "selection_keywords =
     [''select'', ''choose'', ''pick'', ''use'', ''want'', ''need'', ''editor'', ''editors'']"

text \<open>
  The first alternative of \<^verbatim>\<open>(?:select|choose|pick|use|want|need|editor|editors)\<close>
  that matches at the head of the string, letters compared without case (flag \<^verbatim>\<open>i\<close>).
\<close>

definition keyword_at :: "string \<Rightarrow> string option" where
  "keyword_at s = find (\<lambda>k. starts_with k (toLowerCase (take (length k) s))) selection_keywords"

text \<open>\<^verbatim>\<open>input.replace(/(?:select|...|editors)/gi, '')\<close>: every match, left to right, is removed.\<close>

fun remove_keywords :: "string \<Rightarrow> string" where
  "remove_keywords [] = []"
| "remove_keywords (c # cs) =
     (case keyword_at (c # cs) of
        Some k \<Rightarrow> remove_keywords (drop (length k - 1) cs)
      | None \<Rightarrow> c # remove_keywords cs)"

definition is_sep :: "char \<Rightarrow> bool" where
  "is_sep c = (c = CHR '','' \<or> c = CHR '';'' \<or> is_space c)"

text \<open>
  \<^verbatim>\<open>s.split(/[,;\s]+/)\<close>: the pieces between the maximal runs of separators; a
  separator at either end leaves an empty piece there.
\<close>

fun split_seps :: "string \<Rightarrow> string list" where
  "split_seps [] = [[]]"
| "split_seps (c # cs) =
     (if is_sep c then
        (case cs of
           [] \<Rightarrow> [[], []]
         | d # ds \<Rightarrow> if is_sep d then split_seps cs else [] # split_seps cs)
      else
        (case split_seps cs of
           [] \<Rightarrow> [[c]]
         | p # ps \<Rightarrow> (c # p) # ps))"

text \<open>\<^verbatim>\<open>/^(\d+)\s*-\s*(\d+)$/\<close>: the two groups of digits of a range.\<close>

definition match_range :: "string \<Rightarrow> (string \<times> string) option" where
  "match_range s =
     (let d1 = takeWhile is_digit s;
          r1 = dropWhile is_space (dropWhile is_digit s)
      in if d1 = [] then None
         else (case r1 of
                 [] \<Rightarrow> None
               | c # r2 \<Rightarrow>
                   if c \<noteq> CHR ''-'' then None
                   else (let r3 = dropWhile is_space r2;
                             d2 = takeWhile is_digit r3
                         in if d2 \<noteq> [] \<and> dropWhile is_digit r3 = [] then Some (d1, d2)
                            else None)))"

text \<open>\<^verbatim>\<open>/^(\d+)$/\<close>\<close>

definition match_number :: "string \<Rightarrow> string option" where
  "match_number s = (if s \<noteq> [] \<and> list_all is_digit s then Some s else None)"

record numeric_selection =
  selectedIndices :: "nat list"
  invalidIndices :: "nat list"
  hasInput :: bool

text \<open>
  The body shared by the range loop and the single number: an index from 1 to 5 goes to the
  selected list, any other to the invalid list, each unless it is there already.
\<close>

fun add_index :: "nat \<Rightarrow> nat list \<times> nat list \<Rightarrow> nat list \<times> nat list" where
  "add_index i (selected, invalid) =
     (if 1 \<le> i \<and> i \<le> 5 then
        (if i \<in> set selected then (selected, invalid) else (selected @ [i], invalid))
      else
        (if i \<in> set invalid then (selected, invalid) else (selected, invalid @ [i])))"

text \<open>One turn of \<^verbatim>\<open>for (const part of parts)\<close>.\<close>

definition process_part :: "string \<Rightarrow> nat list \<times> nat list \<Rightarrow> nat list \<times> nat list" where
  "process_part part acc =
     (let trimmedPart = trim part
      in if trimmedPart = [] then acc
         else (case match_range trimmedPart of
                 Some (a, b) \<Rightarrow>
                   (let start = parseInt a; stop = parseInt b
                    in if start > stop then acc
                       else fold add_index [start..<Suc stop] acc)
               | None \<Rightarrow>
                   (case match_number trimmedPart of
                      Some d \<Rightarrow> add_index (parseInt d) acc
                    | None \<Rightarrow> acc)))"

definition clean_input :: "string \<Rightarrow> string" where
  "clean_input input = trim (remove_keywords input)"

definition selection_parts :: "string \<Rightarrow> string list" where
  "selection_parts cleanedInput = filter (\<lambda>part. trim part \<noteq> []) (split_seps cleanedInput)"

definition parseNumericSelection :: "string \<Rightarrow> numeric_selection" where
  "parseNumericSelection input =
     (let cleanedInput = clean_input input
      in if \<not> list_ex is_digit cleanedInput then
           \<lparr>selectedIndices = [], invalidIndices = [], hasInput = (length cleanedInput > 0)\<rparr>
         else
           (let (selected, invalid) = fold process_part (selection_parts cleanedInput) ([], [])
            in \<lparr>selectedIndices = sort selected, invalidIndices = sort invalid,
                hasInput = True\<rparr>))"




section \<open>highlightAllFeedbacks\<close>

text \<open>
  \<^verbatim>\<open>html.replace(/<[^>]*>/g, '')\<close>: a \<^verbatim>\<open><\<close> with a \<^verbatim>\<open>>\<close> somewhere after it
  is removed together with everything up to the first such \<^verbatim>\<open>>\<close>.
\<close>

function stripHtmlSpans :: "string \<Rightarrow> string" where
  "stripHtmlSpans [] = []"
| "stripHtmlSpans (c # cs) =
     (if c = CHR ''<'' \<and> CHR ''>'' \<in> set cs
      then stripHtmlSpans (drop 1 (dropWhile (\<lambda>d. d \<noteq> CHR ''>'') cs))
      else c # stripHtmlSpans cs)"
  by pat_completeness auto
termination
  by (relation "measure length") (auto intro: le_imp_less_Suc le_trans[OF diff_le_self length_dropWhile_le])

record hl_item =
  it_text :: string
  it_approved :: "bool option"
  it_start :: nat
  it_end :: nat

text \<open>
  The loop \<^verbatim>\<open>while ((match = regex.exec(text)) !== null)\<close> of a global regular
  expression for an escaped, non-empty literal: the start of every match, each search
  resuming at \<^verbatim>\<open>lastIndex\<close>, the end of the match before. The callers test that the
  literal is non-empty.
\<close>

function match_positions :: "string \<Rightarrow> string \<Rightarrow> nat \<Rightarrow> nat list" where
  "match_positions pat s lastIndex =
     (if length pat = 0 \<or> lastIndex + length pat > length s then []
      else if starts_with pat (drop lastIndex s)
           then lastIndex # match_positions pat s (lastIndex + length pat)
           else match_positions pat s (Suc lastIndex))"
  by pat_completeness auto
termination
  by (relation "measure (\<lambda>(pat, s, lastIndex). length s - lastIndex)")
    (auto simp: neq_Nil_conv)

text \<open>\<^verbatim>\<open>fb.approved === true ? true : (fb.approved === false ? false : null)\<close>\<close>

definition decision :: "jsflag \<Rightarrow> bool option" where
  "decision a = (case a of JBool b \<Rightarrow> Some b | _ \<Rightarrow> None)"

text \<open>
  The items one feedback adds for a text: \<^verbatim>\<open>fb.issue?.trim()\<close> against the original,
  \<^verbatim>\<open>fb.fix?.trim()\<close> against the edited text.
\<close>

definition text_items :: "string \<Rightarrow> string option \<Rightarrow> jsflag \<Rightarrow> hl_item list" where
  "text_items text field a =
     (case map_option trim field of
        None \<Rightarrow> []
      | Some t \<Rightarrow>
          if t \<noteq> [] \<and> str_includes text t
          then map (\<lambda>i. \<lparr>it_text = t, it_approved = decision a,
                          it_start = i, it_end = i + length t\<rparr>)
                 (match_positions t text 0)
          else [])"

definition span :: "string \<Rightarrow> string \<Rightarrow> string" where
  "span cls t = ''<span class='' @ [CHR 0x22] @ cls @ [CHR 0x22] @ ''>'' @ t @ ''</span>''"

definition wrap_original :: "hl_item \<Rightarrow> string" where
  "wrap_original item =
     (if it_approved item = Some True then span ''strikeout highlight-yellow'' (it_text item)
      else if it_approved item = Some False then span ''highlight-green'' (it_text item)
      else span ''highlight-yellow'' (it_text item))"

definition wrap_edited :: "hl_item \<Rightarrow> string" where
  "wrap_edited item =
     (if it_approved item = Some True then span ''highlight-green'' (it_text item)
      else if it_approved item = Some False then span ''strikeout highlight-yellow'' (it_text item)
      else span ''highlight-yellow'' (it_text item))"

text \<open>One turn of \<^verbatim>\<open>items.forEach\<close>: \<^verbatim>\<open>before + highlighted + after\<close>.\<close>

definition apply_item :: "(hl_item \<Rightarrow> string) \<Rightarrow> hl_item \<Rightarrow> string \<Rightarrow> string" where
  "apply_item wrap item highlighted =
     take (it_start item) highlighted @ wrap item @ drop (it_end item) highlighted"

text \<open>\<^verbatim>\<open>items.sort((a, b) => b.start - a.start)\<close>: a stable sort, greatest start first.\<close>

definition sort_desc :: "hl_item list \<Rightarrow> hl_item list" where
  "sort_desc items = sort_key (\<lambda>item. - int (it_start item)) items"

definition highlightAllFeedbacks :: "ParagraphEdit option \<Rightarrow> string \<times> string" where
  "highlightAllFeedbacks para =
     (case para of
        None \<Rightarrow> ([], [])
      | Some p \<Rightarrow>
          (let originalText = stripHtmlSpans (original p);
               editedText = stripHtmlSpans (edited p);
               editorial = (case editorial_feedback p of None \<Rightarrow> [] | Some e \<Rightarrow> e);
               feedbacks = concat (map snd editorial);
               originalItems =
                 concat (map (\<lambda>fb. text_items originalText (fb_issue fb) (fb_approved fb)) feedbacks);
               editedItems =
                 concat (map (\<lambda>fb. text_items editedText (fb_fix fb) (fb_approved fb)) feedbacks)
           in (fold (apply_item wrap_original) (sort_desc originalItems) originalText,
               fold (apply_item wrap_edited) (sort_desc editedItems) editedText)))"

section \<open>The workflow service\<close>

subsection \<open>State\<close>

datatype EditWorkflowStep = idle | awaiting_editors | awaiting_content | processing | awaiting_approval

text \<open>An uploaded file: its name and its bytes, which only \<open>extractFileText\<close> reads.\<close>

record File =
  file_name :: string
  file_bytes :: string

record EditWorkflowState =
  step :: EditWorkflowStep
  uploadedFile :: "File option"
  selectedEditors :: "string list"
  originalContent :: string
  paragraphEdits :: "ParagraphEdit list"

text \<open>
  The service: the value of \<^verbatim>\<open>stateSubject\<close>, the private fields of the sequential
  workflow and the value of \<^verbatim>\<open>isGeneratingFinalSubject\<close>.
\<close>

record service =
  state :: EditWorkflowState
  threadId :: "string option"
  currentEditor :: "string option"
  isSequentialMode :: bool
  isLastEditor :: bool
  currentEditorIndex :: int
  totalEditors :: int
  isGeneratingFinal :: bool

record EditorOption =
  opt_id :: string
  opt_name :: string
  opt_description :: string
  opt_selected :: bool
  opt_disabled :: "bool option"
  opt_alwaysSelected :: "bool option"

text \<open>\<^verbatim>\<open>editorOptions\<close>, without the icons, which the code never reads.\<close>

definition editorOptions :: "EditorOption list" where
  "editorOptions =
     [\<lparr>opt_id = ''development'', opt_name = ''Development Editor'',
       opt_description = ''Reviews and restructures content for alignment and coherence'',
       opt_selected = False, opt_disabled = None, opt_alwaysSelected = None\<rparr>,
      \<lparr>opt_id = ''content'', opt_name = ''Content Editor'',
       opt_description = ''Refines language to align with the author'' @ [CHR 0x27] @ ''s objectives'',
       opt_selected = False, opt_disabled = None, opt_alwaysSelected = None\<rparr>,
      \<lparr>opt_id = ''line'', opt_name = ''Line Editor'',
       opt_description = ''Improves sentence flow, readability and style preserving voice'',
       opt_selected = False, opt_disabled = None, opt_alwaysSelected = None\<rparr>,
      \<lparr>opt_id = ''copy'', opt_name = ''Copy Editor'',
       opt_description = ''Corrects grammar, punctuation and typos'',
       opt_selected = False, opt_disabled = None, opt_alwaysSelected = None\<rparr>,
      \<lparr>opt_id = ''brand-alignment'', opt_name = ''PwC Brand Alignment Editor'',
       opt_description = ''Aligns content writing standards with PwC brand'',
       opt_selected = True, opt_disabled = None, opt_alwaysSelected = None\<rparr>]"

definition getDefaultState :: EditWorkflowState where
  "getDefaultState =
     \<lparr>step = idle, uploadedFile = None, selectedEditors = [''brand-alignment''],
      originalContent = [], paragraphEdits = []\<rparr>"

text \<open>The service as its field initialisers leave it.\<close>

definition initial_service :: service where
  "initial_service =
     \<lparr>state = getDefaultState, threadId = None, currentEditor = None, isSequentialMode = False,
      isLastEditor = False, currentEditorIndex = 0, totalEditors = 0, isGeneratingFinal = False\<rparr>"

subsection \<open>Messages and effects\<close>

datatype progress_status = pending | in_progress | completed | failed

text \<open>
  An entry of \<^verbatim>\<open>editorProgressList\<close>; the statuses \<^verbatim>\<open>'processing'\<close> and
  \<^verbatim>\<open>'error'\<close> are written \<open>in_progress\<close> and \<open>failed\<close>.
\<close>

record editor_progress =
  editorId :: string
  editorName :: string
  status :: progress_status
  ep_current :: "int option"
  ep_total :: "int option"

record progress =
  pr_current :: int
  pr_total :: int
  pr_currentEditor :: string

text \<open>The fields \<^verbatim>\<open>threadId\<close> to \<^verbatim>\<open>totalEditors\<close> of a message's metadata.\<close>

record sequential_info =
  si_threadId :: "string option"
  si_currentEditor :: "string option"
  si_isSequentialMode :: bool
  si_isLastEditor :: bool
  si_currentEditorIndex :: int
  si_totalEditors :: int

record EditWorkflowMetadata =
  md_step :: EditWorkflowStep
  showEditorSelection :: "bool option"
  showFileUpload :: "bool option"
  showCancelButton :: "bool option"
  showSimpleCancelButton :: "bool option"
  md_editorOptions :: "EditorOption list option"
  md_paragraphEdits :: "ParagraphEdit list option"
  editorProgress :: "progress option"
  md_editorProgressList :: "editor_progress list option"
  sequential :: "sequential_info option"

definition metadata :: "EditWorkflowStep \<Rightarrow> EditWorkflowMetadata" where
  "metadata st =
     \<lparr>md_step = st, showEditorSelection = None, showFileUpload = None, showCancelButton = None,
      showSimpleCancelButton = None, md_editorOptions = None, md_paragraphEdits = None,
      editorProgress = None, md_editorProgressList = None, sequential = None\<rparr>"

text \<open>Why \<open>nextEditor\<close> or \<open>generateFinalArticle\<close> gave up: the error the code throws.\<close>

datatype failure =
    HttpError nat string
  | NoReader
  | NoOriginalContent
  | NoFinalArticle
  | Rejected "string option"

text \<open>
  The text of a message. The texts hold characters outside ASCII and markup produced by
  utilities outside this file, so a text is its template and the values put into it:
  \<^item> \<open>SelectEditors\<close>: "I'll help you edit your content! ... Select the editing services";
  \<^item> \<open>UsingEditors names\<close>: "Using (names) to edit your content ... please upload your
    document";
  \<^item> \<open>UploadDocument\<close>: "Please upload a document file ...";
  \<^item> \<open>InvalidEditorNumbers numbers rows\<close>: "Invalid editor number(s): ..." with the
    numbered editor list;
  \<^item> \<open>InvalidSelection rows\<close>: "Please provide valid editor numbers (1-5)." with the list;
  \<^item> \<open>SelectedEditorsAre numbered\<close>: "Selected editors: ...";
  \<^item> \<open>OptOutSummary out sections remaining\<close>: "Opted out: ...", "Sections to edit: ...",
    then "Selected n editor(s): ..." or, with no editor remaining, "No editors selected. ...";
  \<^item> \<open>NoEditorsSelected\<close>: "Please select at least one editing service ...";
  \<^item> \<open>ProcessingWith names\<close>: "Processing your content with: (names) ...";
  \<^item> \<open>ProcessingFailed\<close>: "Sorry, there was an error processing your content. ...";
  \<^item> \<open>Empty\<close>: the empty text of a message that only carries metadata;
  \<^item> \<open>EditorFailed editor error\<close>: "(editor) encountered an error: (error) ...";
  \<^item> \<open>EditingFailed\<close>: "Sorry, there was an error editing your content. ...";
  \<^item> \<open>Cancelled\<close>: "Edit workflow cancelled. How else can I help you?";
  \<^item> \<open>NoThreadId\<close>: "No thread ID available. Cannot proceed to next editor.";
  \<^item> \<open>DecideAllBeforeNext\<close>: "Please approve or reject all paragraph edits before
    proceeding to the next editor.";
  \<^item> \<open>DecideAllBeforeFinal\<close>: "Please approve or decline all paragraph edits before
    generating the final article.";
  \<^item> \<open>NextEditorFailed\<close>, \<open>FinalArticleFailed\<close>: "Failed to proceed to next editor.",
    "Failed to generate final article.", with the error;
  \<^item> \<open>EditorialFeedback errors feedback\<close>: the editorial feedback, after the errors of
    the editors that failed;
  \<^item> \<open>RevisedArticle source names text\<close>, \<open>FinalArticle source names text\<close>: the header
    with the source file and the editors applied, then the article;
  \<^item> \<open>NoRevisedArticle\<close>: "No revised article was returned. Please try again.".
\<close>

datatype msg_text =
    SelectEditors
  | UsingEditors string
  | UploadDocument
  | InvalidEditorNumbers "nat list" "(nat \<times> string \<times> string \<times> bool) list"
  | InvalidSelection "(nat \<times> string \<times> string \<times> bool) list"
  | SelectedEditorsAre "(nat \<times> string) list"
  | OptOutSummary "(nat \<times> string) list" "string list" "string list"
  | NoEditorsSelected
  | ProcessingWith string
  | ProcessingFailed
  | Empty
  | EditorFailed "string option" "string option"
  | EditingFailed
  | Cancelled
  | NoThreadId
  | DecideAllBeforeNext
  | DecideAllBeforeFinal
  | NextEditorFailed failure
  | FinalArticleFailed failure
  | EditorialFeedback "(string \<times> string) list" string
  | RevisedArticle "string option" string string
  | NoRevisedArticle
  | FinalArticle "string option" string string

datatype msg_type = prompt | result | update

text \<open>A message: the role is always the assistant, and the time stamp is left out.\<close>

record Message =
  content :: msg_text
  isHtml :: "bool option"
  editWorkflow :: "EditWorkflowMetadata option"

definition plain_message :: "msg_text \<Rightarrow> Message" where
  "plain_message t = \<lparr>content = t, isHtml = None, editWorkflow = None\<rparr>"

text \<open>
  What an operation does besides changing the service: a message on \<^verbatim>\<open>messageSubject\<close>,
  the two workflow signals, a value on \<^verbatim>\<open>isGeneratingFinalSubject\<close>, a request to
  the backend, an exception that leaves the operation.
\<close>

datatype effect =
    Emit msg_type Message
  | WorkflowStarted
  | WorkflowCompleted
  | GeneratingFinal bool
  | DetectIntent string
  | StreamEditContent string "string list"
  | PostNext "string option" "ParagraphEdit list" "(int \<times> bool) list"
  | PostFinal string "(int \<times> string \<times> string \<times> string list) list" "(int \<times> bool) list"
  | Thrown

text \<open>A request to the backend.\<close>

fun contacts_backend :: "effect \<Rightarrow> bool" where
  "contacts_backend (DetectIntent _) = True"
| "contacts_backend (StreamEditContent _ _) = True"
| "contacts_backend (PostNext _ _ _) = True"
| "contacts_backend (PostFinal _ _ _) = True"
| "contacts_backend _ = False"

type_synonym operation = "service \<Rightarrow> service \<times> effect list"

text \<open>One statement after another: the effects follow in order.\<close>

definition and_then :: "operation \<Rightarrow> operation \<Rightarrow> operation" where
  "and_then f g sv = (let (s1, e1) = f sv; (s2, e2) = g s1 in (s2, e1 @ e2))"

definition updateState :: "EditWorkflowState \<Rightarrow> operation" where
  "updateState newState sv = (sv\<lparr>state := newState\<rparr>, [])"

definition emit :: "msg_type \<Rightarrow> Message \<Rightarrow> operation" where
  "emit ty m sv = (sv, [Emit ty m])"

subsection \<open>Utilities outside this file\<close>

text \<open>
  The functions imported from \<^verbatim>\<open>edit-content.utils\<close> and
  \<^verbatim>\<open>paragraph-edit.utils\<close>, taken as parameters. \<open>extractFileText\<close> gives
  \<open>None\<close> when its promise is rejected.
\<close>

record utils =
  getEditorDisplayName :: "string \<Rightarrow> string"
  normalizeEditorOrder :: "string list \<Rightarrow> string list"
  normalizeContent :: "string \<Rightarrow> string"
  extractFileText :: "File \<Rightarrow> string option"
  splitIntoParagraphs :: "string \<Rightarrow> string list"
  validateStringEquality :: "string \<Rightarrow> string \<Rightarrow> bool"
  createParagraphEditsFromComparison :: "string \<Rightarrow> string \<Rightarrow> string list \<Rightarrow> ParagraphEdit list"
  extractDocumentTitle :: "string \<Rightarrow> string option \<Rightarrow> string"

text \<open>
  Modelled from the spec: \<open>allParagraphsDecided\<close> of \<^verbatim>\<open>paragraph-edit.utils\<close>, which
  is not in this file. It is false exactly when some paragraph edit has \<open>approved\<close> equal to
  null.
\<close>

definition allParagraphsDecided :: "ParagraphEdit list \<Rightarrow> bool" where
  "allParagraphsDecided edits = list_all (\<lambda>p. approved p \<noteq> None) edits"

subsection \<open>Values that may be missing\<close>

text \<open>\<^verbatim>\<open>a || b\<close> on a string that may be absent: the empty string is falsy.\<close>

definition str_or :: "string option \<Rightarrow> string \<Rightarrow> string" where
  "str_or a b = (case a of Some s \<Rightarrow> if s \<noteq> [] then s else b | None \<Rightarrow> b)"

definition truthy :: "string option \<Rightarrow> bool" where
  "truthy a = (case a of Some s \<Rightarrow> s \<noteq> [] | None \<Rightarrow> False)"

text \<open>\<^verbatim>\<open>a || b\<close> on a number that may be absent: zero is falsy.\<close>

definition int_or :: "int option \<Rightarrow> int \<Rightarrow> int" where
  "int_or a b = (case a of Some n \<Rightarrow> if n \<noteq> 0 then n else b | None \<Rightarrow> b)"

text \<open>\<^verbatim>\<open>!s || !s.trim()\<close>\<close>

definition blank :: "string \<Rightarrow> bool" where
  "blank s = (trim s = [])"

text \<open>\<^verbatim>\<open>xs.join(sep)\<close>\<close>

fun join :: "string \<Rightarrow> string list \<Rightarrow> string" where
  "join sep [] = []"
| "join sep [x] = x"
| "join sep (x # y # ys) = x @ sep @ join sep (y # ys)"

subsection \<open>Selecting editors and starting\<close>

definition signal :: "effect \<Rightarrow> operation" where
  "signal e sv = (sv, [e])"

text \<open>\<^verbatim>\<open>if (!ids.includes('brand-alignment')) ids.push('brand-alignment')\<close>\<close>

definition with_brand :: "string list \<Rightarrow> string list" where
  "with_brand ids = (if ''brand-alignment'' \<in> set ids then ids else ids @ [''brand-alignment''])"

definition createEditorSelectionMessage :: "msg_text \<Rightarrow> EditorOption list option \<Rightarrow> Message" where
  "createEditorSelectionMessage text given =
     (let editors = (case given of Some es \<Rightarrow> es | None \<Rightarrow> editorOptions);
          defaultSelectedIds = [''brand-alignment''];
          editorsWithSelection =
            map (\<lambda>editor. editor\<lparr>opt_selected := opt_id editor \<in> set defaultSelectedIds,
                                  opt_disabled := Some (opt_id editor = ''brand-alignment''),
                                  opt_alwaysSelected := Some (opt_id editor = ''brand-alignment'')\<rparr>)
              editors
      in \<lparr>content = text, isHtml = None,
          editWorkflow = Some ((metadata awaiting_editors)
            \<lparr>showEditorSelection := Some True, showCancelButton := Some False,
             showSimpleCancelButton := Some False,
             md_editorOptions := Some editorsWithSelection\<rparr>)\<rparr>)"

definition createNoEditorsErrorMessage :: operation where
  "createNoEditorsErrorMessage = emit prompt (createEditorSelectionMessage NoEditorsSelected None)"

definition beginWorkflow :: operation where
  "beginWorkflow =
     and_then (updateState (getDefaultState\<lparr>step := awaiting_editors\<rparr>))
       (and_then (signal WorkflowStarted)
          (emit prompt (createEditorSelectionMessage SelectEditors None)))"

definition getEditorNamesFromIds :: "string list \<Rightarrow> string list" where
  "getEditorNamesFromIds editorIds =
     filter (\<lambda>name. name \<noteq> [])
       (List.map_filter (\<lambda>i. map_option opt_name (find (\<lambda>e. opt_id e = i) editorOptions))
          editorIds)"

definition getSelectedEditorNames :: "string list \<Rightarrow> string" where
  "getSelectedEditorNames editorIds =
     (let names = getEditorNamesFromIds editorIds
      in if length names = 0 then []
         else if length names = 1 then hd names
         else if length names = 2 then join '' and '' names
         else join '', '' (butlast names) @ '', and '' @ last names)"

text \<open>The message that asks for the document, sent when the step becomes \<open>awaiting_content\<close>.\<close>

definition contentRequestMessage :: "string \<Rightarrow> Message" where
  "contentRequestMessage editorNamesText =
     \<lparr>content = UsingEditors editorNamesText, isHtml = None,
      editWorkflow = Some ((metadata awaiting_content)
        \<lparr>showFileUpload := Some True, showCancelButton := Some False,
         showSimpleCancelButton := Some True\<rparr>)\<rparr>"

definition beginWorkflowWithEditors :: "string list \<Rightarrow> operation" where
  "beginWorkflowWithEditors editorIds sv =
     (if length editorIds = 0 then beginWorkflow sv
      else
        (let validEditorIds = map opt_id editorOptions;
             validatedEditors = filter (\<lambda>i. i \<in> set validEditorIds) editorIds
         in if length validatedEditors = 0 then beginWorkflow sv
            else
              (let editorsWithBrand = with_brand validatedEditors
               in and_then
                    (updateState (getDefaultState\<lparr>step := awaiting_content,
                                                   selectedEditors := editorsWithBrand\<rparr>))
                    (and_then (signal WorkflowStarted)
                       (emit prompt
                          (contentRequestMessage (getSelectedEditorNames validatedEditors))))
                    sv)))"

text \<open>The rows of \<^verbatim>\<open>getNumberedEditorList\<close>: number, name, description, tick.\<close>

definition getNumberedEditorList :: "service \<Rightarrow> (nat \<times> string \<times> string \<times> bool) list" where
  "getNumberedEditorList sv =
     map (\<lambda>(i, editor). (i + 1, opt_name editor, opt_description editor,
                           opt_id editor \<in> set (selectedEditors (state sv))))
       (enumerate 0 editorOptions)"

definition showInvalidSelectionError :: operation where
  "showInvalidSelectionError sv =
     emit prompt (createEditorSelectionMessage (InvalidSelection (getNumberedEditorList sv)) None) sv"

definition handleNumericSelection :: "numeric_selection \<Rightarrow> operation" where
  "handleNumericSelection res sv =
     (if length (invalidIndices res) > 0 then
        emit prompt
          (createEditorSelectionMessage
             (InvalidEditorNumbers (invalidIndices res) (getNumberedEditorList sv)) None) sv
      else if length (selectedIndices res) = 0 \<and> hasInput res then showInvalidSelectionError sv
      else if length (selectedIndices res) > 0 then
        (let updatedEditors =
               map (\<lambda>(i, editor). editor\<lparr>opt_selected := (i + 1) \<in> set (selectedIndices res)\<rparr>)
                 (enumerate 0 editorOptions);
             selectedIds = with_brand (map opt_id (filter opt_selected updatedEditors));
             selectedNames =
               map (\<lambda>e. (length (takeWhile (\<lambda>opt. opt_id opt \<noteq> opt_id e) editorOptions) + 1,
                         opt_name e))
                 (filter opt_selected updatedEditors)
         in and_then (updateState ((state sv)\<lparr>selectedEditors := selectedIds\<rparr>))
              (emit prompt
                 (createEditorSelectionMessage (SelectedEditorsAre selectedNames)
                    (Some updatedEditors)))
              sv)
      else (sv, []))"

record opt_out =
  optedOut :: "nat list"
  sections :: "string list"

text \<open>
  \<open>handleOptOutAndProceed\<close>. Both of its endings send the same kind of message, whose text
  depends on whether an editor remains. Reading the name of an opted-out editor whose number
  is not one of the list throws, after the state is updated.
\<close>

definition handleOptOutAndProceed :: "opt_out \<Rightarrow> operation" where
  "handleOptOutAndProceed res sv =
     (let chosen =
            map (\<lambda>(i, editor).
                   if opt_id editor = ''brand-alignment'' then editor\<lparr>opt_selected := True\<rparr>
                   else editor\<lparr>opt_selected := (i + 1) \<notin> set (optedOut res)\<rparr>)
              (enumerate 0 editorOptions);
          selectedIds = with_brand (map opt_id (filter opt_selected chosen));
          remainingEditors = filter opt_selected chosen
      in and_then (updateState ((state sv)\<lparr>selectedEditors := selectedIds\<rparr>))
           (if list_ex (\<lambda>num. num < 1 \<or> num > length editorOptions) (optedOut res)
            then signal Thrown
            else emit prompt
                   (createEditorSelectionMessage
                      (OptOutSummary
                         (map (\<lambda>num. (num, opt_name (editorOptions ! (num - 1)))) (optedOut res))
                         (sections res) (map opt_name remainingEditors))
                      (Some chosen)))
           sv)"

definition proceedToContentStep :: operation where
  "proceedToContentStep sv =
     (let selectedIds = with_brand (selectedEditors (state sv))
      in if length selectedIds = 0 then createNoEditorsErrorMessage sv
         else and_then (updateState ((state sv)\<lparr>selectedEditors := selectedIds\<rparr>))
                (and_then (\<lambda>s. updateState ((state s)\<lparr>step := awaiting_content\<rparr>) s)
                   (emit prompt (contentRequestMessage (getSelectedEditorNames selectedIds))))
                sv)"

definition handleEditorSelection :: "string list \<Rightarrow> operation" where
  "handleEditorSelection selectedIds sv =
     (if step (state sv) \<noteq> awaiting_editors then (sv, [])
      else
        (let editorsWithBrand = with_brand selectedIds
         in if length editorsWithBrand = 0 then createNoEditorsErrorMessage sv
            else and_then (updateState ((state sv)\<lparr>selectedEditors := editorsWithBrand\<rparr>))
                   proceedToContentStep sv))"

subsection \<open>Ending\<close>

definition completeWorkflow :: operation where
  "completeWorkflow sv =
     and_then (updateState getDefaultState) (signal WorkflowCompleted)
       (sv\<lparr>threadId := None, currentEditor := None, isSequentialMode := False,
           isLastEditor := False, currentEditorIndex := 0, totalEditors := 0\<rparr>)"

definition cancelWorkflow :: operation where
  "cancelWorkflow sv =
     (if step (state sv) = idle then (sv, [])
      else if step (state sv) = processing then (sv, [])
      else and_then (updateState getDefaultState)
             (and_then (signal WorkflowCompleted) (emit prompt (plain_message Cancelled)))
             sv)"

subsection \<open>Uploading and processing\<close>

text \<open>
  The text \<open>processWithContent\<close> goes on with, or \<open>None\<close> when it throws: the stored
  content, or else the normalised text of the uploaded file, as long as it is not blank.
\<close>

definition content_to_process :: "utils \<Rightarrow> service \<Rightarrow> string option" where
  "content_to_process U sv =
     (let stored = originalContent (state sv);
          contentText =
            (case uploadedFile (state sv) of
               Some f \<Rightarrow>
                 if stored = [] then map_option (normalizeContent U) (extractFileText U f)
                 else Some stored
             | None \<Rightarrow> Some stored)
      in case contentText of
           None \<Rightarrow> None
         | Some t \<Rightarrow> if blank t then None else Some t)"

text \<open>
  \<open>processWithContent\<close> up to the subscription to the stream of edits, which
  \<open>StreamEditContent\<close> records; the events of the stream are handled below. A failure is caught:
  an error message, then \<open>completeWorkflow\<close>.
\<close>

definition processWithContent :: "utils \<Rightarrow> operation" where
  "processWithContent U sv =
     (let selectedIds = with_brand (selectedEditors (state sv));
          selectedNames = getSelectedEditorNames selectedIds
      in case content_to_process U sv of
           None \<Rightarrow> and_then (emit result (plain_message ProcessingFailed)) completeWorkflow sv
         | Some contentText \<Rightarrow>
             and_then (updateState ((state sv)\<lparr>originalContent := contentText\<rparr>))
               (and_then (\<lambda>s. updateState ((state s)\<lparr>step := processing\<rparr>) s)
                  (and_then
                     (emit prompt
                        \<lparr>content = ProcessingWith selectedNames, isHtml = None,
                         editWorkflow = Some ((metadata processing)
                           \<lparr>showCancelButton := Some False\<rparr>)\<rparr>)
                     (signal (StreamEditContent contentText
                                (normalizeEditorOrder U selectedIds)))))
               sv)"

definition handleFileUpload :: "utils \<Rightarrow> File \<Rightarrow> operation" where
  "handleFileUpload U file sv =
     (if step (state sv) \<noteq> awaiting_content then (sv, [])
      else and_then (updateState ((state sv)\<lparr>uploadedFile := Some file\<rparr>))
             (processWithContent U) sv)"

subsection \<open>Chat input\<close>

text \<open>
  The answer of the backend to \<open>detectEditIntent\<close>; \<open>confident\<close> stands for
  \<^verbatim>\<open>confidence >= 0.7\<close>.
\<close>

record intent_answer =
  is_edit_intent :: bool
  confident :: bool
  detected_editors :: "string list option"

text \<open>
  \<open>handleChatInput\<close>. \<open>answer\<close> is what the backend returns if it is asked, \<open>None\<close> when
  the request fails.
\<close>

definition handleChatInput :: "utils \<Rightarrow> intent_answer option \<Rightarrow> string \<Rightarrow> File option \<Rightarrow> operation" where
  "handleChatInput U answer input file sv =
     (let trimmedInput = trim input;
          workflowActive = (step (state sv) \<noteq> idle)
      in if \<not> workflowActive then
           (if trimmedInput = [] then (sv, [])
            else
              (case answer of
                 None \<Rightarrow> (sv, [DetectIntent trimmedInput])
               | Some a \<Rightarrow>
                   if is_edit_intent a \<and> confident a then
                     (case detected_editors a of
                        Some eds \<Rightarrow>
                          if length eds > 0
                          then and_then (signal (DetectIntent trimmedInput))
                                 (beginWorkflowWithEditors eds) sv
                          else and_then (signal (DetectIntent trimmedInput)) beginWorkflow sv
                      | None \<Rightarrow> and_then (signal (DetectIntent trimmedInput)) beginWorkflow sv)
                   else (sv, [DetectIntent trimmedInput])))
         else if step (state sv) = awaiting_editors then
           (if trimmedInput \<noteq> [] then
              (let lowerInput = toLowerCase trimmedInput
               in if str_includes lowerInput ''proceed'' \<or> str_includes lowerInput ''continue'' \<or>
                     str_includes lowerInput ''yes'' \<or> lowerInput = ''ok'' \<or> lowerInput = ''done''
                  then proceedToContentStep sv
                  else if str_includes lowerInput ''cancel'' then cancelWorkflow sv
                  else
                    (let selectionResult = parseNumericSelection trimmedInput
                     in if length (selectedIndices selectionResult) > 0 \<or> hasInput selectionResult
                        then handleNumericSelection selectionResult sv
                        else if length (trim trimmedInput) > 0 then showInvalidSelectionError sv
                        else (sv, [])))
            else (sv, []))
         else if step (state sv) = awaiting_content then
           (case file of
              Some f \<Rightarrow> handleFileUpload U f sv
            | None \<Rightarrow>
                if trimmedInput \<noteq> [] then
                  emit prompt
                    \<lparr>content = UploadDocument, isHtml = None,
                     editWorkflow = Some ((metadata awaiting_content)
                       \<lparr>showCancelButton := Some False, showSimpleCancelButton := Some True\<rparr>)\<rparr>
                    sv
                else (sv, []))
         else (sv, []))"

subsection \<open>The stream of edits\<close>

datatype event_type =
    EditorProgress | EditorContent | EditorComplete | EditorError | FinalComplete
  | Content | AllComplete | ErrorEvent | OtherType

text \<open>
  An entry of \<^verbatim>\<open>data.paragraph_edits\<close>. \<open>e_index\<close> is \<open>None\<close> when the index is
  undefined or null.
\<close>

record edit_entry =
  e_index :: "int option"
  e_original :: "string option"
  e_edited :: "string option"
  e_tags :: "string list option"
  e_autoApproved :: jsflag
  e_approved :: jsflag
  e_editorial_feedback :: "(string \<times> EditorialFeedbackItem list) list option"

text \<open>
  The object of a stream event: every field the handlers read, \<open>None\<close> when it is missing.
  \<open>paragraph_edits\<close> is \<open>Some\<close> when the field is an array.
\<close>

record stream_data =
  ev_type :: event_type
  current :: "int option"
  total :: "int option"
  editor :: "string option"
  ev_content :: "string option"
  thread_id :: "string option"
  current_editor :: "string option"
  editor_index :: "int option"
  total_editors :: "int option"
  revised_content :: "string option"
  final_revised :: "string option"
  paragraph_edits :: "edit_entry list option"
  original_content :: "string option"
  combined_feedback :: "string option"
  ev_error :: "string option"

datatype stream_event = Data stream_data | Raw string

text \<open>The variables of \<open>processContent\<close> that its subscription closes over.\<close>

record stream_ctx =
  selectedIds :: "string list"
  selectedNames :: string
  fullResponse :: string
  combinedFeedback :: string
  finalRevisedContent :: string
  currentEditorProgress :: "progress option"
  editorErrors :: "(string \<times> string) list"
  editorProgressList :: "editor_progress list"

definition processContent_init :: "utils \<Rightarrow> string list \<Rightarrow> string \<Rightarrow> stream_ctx" where
  "processContent_init U ids names =
     (let normalizedEditorIds = normalizeEditorOrder U ids
      in \<lparr>selectedIds = ids, selectedNames = names, fullResponse = [], combinedFeedback = [],
          finalRevisedContent = [], currentEditorProgress = None, editorErrors = [],
          editorProgressList =
            map (\<lambda>(i, ident). \<lparr>editorId = ident, editorName = getEditorDisplayName U ident,
                                 status = pending, ep_current = Some (int i + 1),
                                 ep_total = Some (int (length normalizedEditorIds))\<rparr>)
              (enumerate 0 normalizedEditorIds)\<rparr>)"


text \<open>\<^verbatim>\<open>xs.findIndex(P)\<close>, with \<open>None\<close> for -1.\<close>

definition findIndex :: "('a \<Rightarrow> bool) \<Rightarrow> 'a list \<Rightarrow> nat option" where
  "findIndex P xs =
     (if list_ex P xs then Some (length (takeWhile (\<lambda>x. \<not> P x) xs)) else None)"

text \<open>\<^verbatim>\<open>const e = xs.find(P); if (e) e.status = s\<close>\<close>

definition set_status_of_first :: "(editor_progress \<Rightarrow> bool) \<Rightarrow> progress_status \<Rightarrow> editor_progress list \<Rightarrow> editor_progress list" where
  "set_status_of_first P s xs =
     (case findIndex P xs of None \<Rightarrow> xs | Some k \<Rightarrow> xs[k := (xs ! k)\<lparr>status := s\<rparr>])"

definition progress_message :: "msg_text \<Rightarrow> progress option \<Rightarrow> editor_progress list \<Rightarrow> Message" where
  "progress_message text pr lst =
     \<lparr>content = text, isHtml = None,
      editWorkflow = Some ((metadata processing)
        \<lparr>showCancelButton := Some False, editorProgress := pr,
         md_editorProgressList := Some lst\<rparr>)\<rparr>"

definition sequential_of :: "service \<Rightarrow> sequential_info" where
  "sequential_of sv =
     \<lparr>si_threadId = threadId sv, si_currentEditor = currentEditor sv,
      si_isSequentialMode = isSequentialMode sv, si_isLastEditor = isLastEditor sv,
      si_currentEditorIndex = currentEditorIndex sv, si_totalEditors = totalEditors sv\<rparr>"

text \<open>The message that carries paragraph edits for approval.\<close>

definition paragraphs_message :: "service \<Rightarrow> ParagraphEdit list \<Rightarrow> Message" where
  "paragraphs_message sv edits =
     \<lparr>content = Empty, isHtml = Some False,
      editWorkflow = Some ((metadata awaiting_approval)
        \<lparr>md_paragraphEdits := Some edits, showCancelButton := Some False,
         showSimpleCancelButton := Some True, sequential := Some (sequential_of sv)\<rparr>)\<rparr>"

text \<open>
  \<^verbatim>\<open>tag.match(/^(.+?)\s*\(/)\<close>: the shortest non-empty head of the tag, free of line
  terminators, that white space and an opening parenthesis follow; trimmed. The tag itself
  when there is none.
\<close>

definition is_line_terminator :: "char \<Rightarrow> bool" where
  "is_line_terminator c = (c = CHR 0x0A \<or> c = CHR 0x0D)"

definition paren_follows :: "string \<Rightarrow> bool" where
  "paren_follows r = (case dropWhile is_space r of [] \<Rightarrow> False | c # _ \<Rightarrow> c = CHR ''('')"

definition tag_editor_name :: "string \<Rightarrow> string" where
  "tag_editor_name tag =
     (case find (\<lambda>k. paren_follows (drop k tag))
             [1..<Suc (length (takeWhile (\<lambda>c. \<not> is_line_terminator c) tag))] of
        Some k \<Rightarrow> trim (take k tag)
      | None \<Rightarrow> tag)"

text \<open>
  The tags of a paragraph: the given ones, then a tag "(Reviewed)" for each editor name that
  no editor name of a given tag contains or is contained in, letters compared in lower case.
\<close>

definition all_tags :: "string list \<Rightarrow> string list \<Rightarrow> string list" where
  "all_tags existingTags allEditorNames =
     (let existingEditorNames = map tag_editor_name existingTags
      in existingTags @
         map (\<lambda>editorName. editorName @ '' (Reviewed)'')
           (filter (\<lambda>editorName.
                      \<not> list_ex (\<lambda>existing.
                           str_includes (toLowerCase existing) (toLowerCase editorName) \<or>
                           str_includes (toLowerCase editorName) (toLowerCase existing))
                         existingEditorNames)
              allEditorNames))"

text \<open>\<^verbatim>\<open>(s && s.trim()) || ''\<close>\<close>

definition trimmed_or_empty :: "string option \<Rightarrow> string" where
  "trimmed_or_empty s = (case s of Some t \<Rightarrow> trim t | None \<Rightarrow> [])"

text \<open>The five lists of \<^verbatim>\<open>edit.editorial_feedback\<close>, each empty when it is missing.\<close>

definition feedback_lists :: "(string \<times> EditorialFeedbackItem list) list \<Rightarrow> (string \<times> EditorialFeedbackItem list) list" where
  "feedback_lists fb =
     map (\<lambda>k. (k, case map_of fb k of Some items \<Rightarrow> items | None \<Rightarrow> []))
       [''development'', ''content'', ''copy'', ''line'', ''brand'']"

text \<open>
  The body of \<^verbatim>\<open>data.paragraph_edits.map((edit, arrayIndex) => ...)\<close>, the same in
  the three places where the code has it.
\<close>

definition paragraph_edit_of :: "utils \<Rightarrow> string list \<Rightarrow> string list \<Rightarrow> nat \<Rightarrow> edit_entry \<Rightarrow> ParagraphEdit" where
  "paragraph_edit_of U allEditorNames originalParagraphs arrayIndex edit =
     (let existingTags = (case e_tags edit of Some ts \<Rightarrow> ts | None \<Rightarrow> []);
          allTags = all_tags existingTags allEditorNames;
          paragraphIndex = (case e_index edit of Some i \<Rightarrow> i | None \<Rightarrow> int arrayIndex);
          originalText =
            (if trimmed_or_empty (e_original edit) \<noteq> [] then trimmed_or_empty (e_original edit)
             else if int (length originalParagraphs) > paragraphIndex \<and> paragraphIndex \<ge> 0
                  then trim (originalParagraphs ! nat paragraphIndex)
                  else []);
          editedText = trimmed_or_empty (e_edited edit);
          isIdentical = validateStringEquality U originalText editedText;
          autoApprovedFlag =
            (case e_autoApproved edit of Absent \<Rightarrow> JBool isIdentical | given \<Rightarrow> given);
          approvedFlag =
            (if autoApprovedFlag = JBool True then Some True
             else (case e_approved edit of JBool b \<Rightarrow> Some b | _ \<Rightarrow> None))
      in \<lparr>index = paragraphIndex, original = originalText, edited = editedText, tags = allTags,
          autoApproved = autoApprovedFlag, approved = approvedFlag,
          editorial_feedback = map_option feedback_lists (e_editorial_feedback edit),
          displayOriginal = Some originalText, displayEdited = Some editedText\<rparr>)"

text \<open>
  The paragraph edits of an event that carries \<open>paragraph_edits\<close>: the original content is
  \<^verbatim>\<open>data.original_content || this.currentState.originalContent || ''\<close>, split into
  paragraphs unless it is empty.
\<close>

definition paragraph_edits_of :: "utils \<Rightarrow> string list \<Rightarrow> string \<Rightarrow> stream_data \<Rightarrow> edit_entry list \<Rightarrow> ParagraphEdit list" where
  "paragraph_edits_of U editorIds stored d entries =
     (let allEditorNames = map (getEditorDisplayName U) editorIds;
          originalContentText = str_or (original_content d) stored;
          originalParagraphs =
            (if originalContentText \<noteq> [] then splitIntoParagraphs U originalContentText else [])
      in map (\<lambda>(arrayIndex, edit).
                paragraph_edit_of U allEditorNames originalParagraphs arrayIndex edit)
           (enumerate 0 entries))"

text \<open>
  \<open>dispatchResultsToChat\<close> as \<open>processContent\<close> calls it, with an empty raw response and
  no extracted title. The feedback message is sent when there is feedback or an editor
  failed; its text is the summary of the errors followed by the feedback.
\<close>

definition dispatchResultsToChat :: "string \<Rightarrow> (string \<times> string) list \<Rightarrow> string \<Rightarrow> string \<Rightarrow> ParagraphEdit list option \<Rightarrow> operation" where
  "dispatchResultsToChat selectedEditorNames errors feedback final paragraphEditsArg sv =
     (let revisedContent = (if \<not> blank final then trim final else []);
          uploadedFileName = map_option file_name (uploadedFile (state sv));
          feedbackMessages =
            (if errors \<noteq> [] \<or> feedback \<noteq> []
             then [Emit result
                     \<lparr>content = EditorialFeedback errors (trim feedback), isHtml = Some True,
                      editWorkflow = None\<rparr>]
             else []);
          articleMessage =
            (case paragraphEditsArg of
               Some edits \<Rightarrow>
                 if length edits > 0 then paragraphs_message sv edits
                 else \<lparr>content = NoRevisedArticle, isHtml = Some True, editWorkflow = None\<rparr>
             | None \<Rightarrow>
                 if revisedContent \<noteq> []
                 then \<lparr>content = RevisedArticle uploadedFileName selectedEditorNames revisedContent,
                       isHtml = Some True, editWorkflow = None\<rparr>
                 else \<lparr>content = NoRevisedArticle, isHtml = Some True, editWorkflow = None\<rparr>)
      in (sv, feedbackMessages @ [Emit result articleMessage]))"

type_synonym stream_handler = "stream_ctx \<Rightarrow> service \<Rightarrow> (service \<times> effect list) \<times> stream_ctx"

definition on_editor_progress :: "stream_data \<Rightarrow> stream_handler" where
  "on_editor_progress d ctx sv =
     (let currentIndex = int_or (current d) 0;
          pr = \<lparr>pr_current = int_or (current d) 0, pr_total = int_or (total d) 0,
                pr_currentEditor = str_or (editor d) []\<rparr>;
          lst = map (\<lambda>(i, ed).
                       let editorIndex = int i + 1
                       in if editorIndex < currentIndex then ed\<lparr>status := completed\<rparr>
                          else if editorIndex = currentIndex
                          then ed\<lparr>status := in_progress, ep_current := Some currentIndex,
                                  ep_total := Some (int_or (total d) (int (length (selectedIds ctx))))\<rparr>
                          else ed\<lparr>status := pending\<rparr>)
                  (enumerate 0 (editorProgressList ctx));
          ctx' = ctx\<lparr>currentEditorProgress := Some pr, editorProgressList := lst\<rparr>
      in ((sv, [Emit prompt (progress_message Empty (Some pr) lst)]), ctx'))"

text \<open>The private fields an \<open>editor_complete\<close> event sets.\<close>

definition store_editor_info :: "bool \<Rightarrow> stream_data \<Rightarrow> service \<Rightarrow> service" where
  "store_editor_info sets_mode d sv =
     (let s1 = (if truthy (thread_id d)
                then (if sets_mode then sv\<lparr>threadId := thread_id d, isSequentialMode := True\<rparr>
                      else sv\<lparr>threadId := thread_id d\<rparr>)
                else sv)
      in if truthy (current_editor d)
         then s1\<lparr>currentEditor := current_editor d,
                 currentEditorIndex := int_or (editor_index d) 0,
                 totalEditors := int_or (total_editors d) (totalEditors s1),
                 isLastEditor := (int_or (editor_index d) 0 \<ge> int_or (total_editors d) 1 - 1)\<rparr>
         else s1)"

definition on_editor_complete :: "utils \<Rightarrow> stream_data \<Rightarrow> stream_handler" where
  "on_editor_complete U d ctx sv =
     (let s1 = store_editor_info True d sv;
          lst = set_status_of_first
                  (\<lambda>e. Some (editorId e) = current_editor d \<or> Some (editorId e) = editor d)
                  completed (editorProgressList ctx);
          ctx' = ctx\<lparr>editorProgressList := lst,
                     fullResponse :=
                       (if truthy (revised_content d) \<or> truthy (final_revised d)
                        then str_or (revised_content d) (str_or (final_revised d) [])
                        else fullResponse ctx)\<rparr>;
          (s2, shown) =
            (case paragraph_edits d of
               Some entries \<Rightarrow>
                 (let edits = paragraph_edits_of U (selectedIds ctx)
                                (originalContent (state s1)) d entries;
                      s = s1\<lparr>state := (state s1)
                             \<lparr>paragraphEdits := edits,
                              originalContent :=
                                str_or (original_content d) (originalContent (state s1))\<rparr>\<rparr>
                  in (s, [Emit result (paragraphs_message s edits)]))
             | None \<Rightarrow> (s1, []));
          s3 = (if truthy (original_content d)
                then s2\<lparr>state := (state s2)\<lparr>originalContent := the (original_content d)\<rparr>\<rparr>
                else s2)
      in ((s3, shown @ [Emit prompt (progress_message Empty (currentEditorProgress ctx') lst)]),
          ctx'))"

definition on_editor_error :: "stream_data \<Rightarrow> stream_handler" where
  "on_editor_error d ctx sv =
     (let lst = set_status_of_first (\<lambda>e. Some (editorId e) = editor d) failed
                  (editorProgressList ctx);
          ctx' = ctx\<lparr>editorProgressList := lst,
                     editorErrors := editorErrors ctx @
                       [(str_or (editor d) ''Unknown'', str_or (ev_error d) ''Unknown error'')]\<rparr>
      in ((sv, [Emit prompt
                  (progress_message (EditorFailed (editor d) (ev_error d))
                     (currentEditorProgress ctx') lst)]),
          ctx'))"

definition on_final_complete :: "utils \<Rightarrow> stream_data \<Rightarrow> stream_handler" where
  "on_final_complete U d ctx sv =
     (let edits =
            (case paragraph_edits d of
               Some entries \<Rightarrow>
                 paragraph_edits_of U (selectedIds ctx) (originalContent (state sv)) d entries
             | None \<Rightarrow>
                 if truthy (final_revised d) \<and> truthy (original_content d)
                 then createParagraphEditsFromComparison U (the (original_content d))
                        (the (final_revised d)) (map (getEditorDisplayName U) (selectedIds ctx))
                 else []);
          s1 = sv\<lparr>state := (state sv)
                 \<lparr>paragraphEdits := edits,
                  originalContent := str_or (original_content d) (originalContent (state sv))\<rparr>\<rparr>;
          lst = map (\<lambda>e. if status e \<noteq> failed then e\<lparr>status := completed\<rparr> else e)
                  (editorProgressList ctx);
          n = int_or (map_option pr_total (currentEditorProgress ctx)) (int (length lst));
          completedProgress = \<lparr>pr_current = n, pr_total = n, pr_currentEditor = ''completed''\<rparr>;
          ctx' = ctx\<lparr>combinedFeedback := str_or (combined_feedback d) [],
                     finalRevisedContent := str_or (final_revised d) [],
                     editorProgressList := lst\<rparr>;
          (s2, sent) = dispatchResultsToChat (selectedNames ctx) (editorErrors ctx)
                         (combinedFeedback ctx') (finalRevisedContent ctx') (Some edits) s1
      in ((s2, Emit prompt (progress_message Empty (Some completedProgress) lst) # sent), ctx'))"

text \<open>The \<^verbatim>\<open>next\<close> callback of the subscription.\<close>

definition processContent_next :: "utils \<Rightarrow> stream_event \<Rightarrow> stream_handler" where
  "processContent_next U ev ctx sv =
     (case ev of
        Raw s \<Rightarrow> ((sv, []), ctx\<lparr>fullResponse := fullResponse ctx @ s\<rparr>)
      | Data d \<Rightarrow>
          if ev_type d = EditorProgress then on_editor_progress d ctx sv
          else if ev_type d = EditorContent then
            ((sv, []), if truthy (ev_content d)
                        then ctx\<lparr>fullResponse := fullResponse ctx @ the (ev_content d)\<rparr> else ctx)
          else if ev_type d = EditorComplete then on_editor_complete U d ctx sv
          else if ev_type d = EditorError then on_editor_error d ctx sv
          else if ev_type d = FinalComplete then on_final_complete U d ctx sv
          else if ev_type d = Content \<and> truthy (ev_content d) then
            ((sv, []), ctx\<lparr>fullResponse := fullResponse ctx @ the (ev_content d)\<rparr>)
          else ((sv, []), ctx))"

text \<open>The \<^verbatim>\<open>error\<close> and \<^verbatim>\<open>complete\<close> callbacks.\<close>

definition processContent_error :: operation where
  "processContent_error = and_then (emit result (plain_message EditingFailed)) completeWorkflow"

definition processContent_complete :: operation where
  "processContent_complete = completeWorkflow"


subsection \<open>Approving paragraphs\<close>

definition emitParagraphUpdateMessage :: operation where
  "emitParagraphUpdateMessage sv =
     emit update (paragraphs_message sv (paragraphEdits (state sv))) sv"

text \<open>
  \<open>approveParagraph\<close> and \<open>declineParagraph\<close> differ in the decision only:
  \<^verbatim>\<open>edits.map((p, i) => i === paragraphIndex ? { ...p, approved: decision } : p)\<close>.
\<close>

definition decideParagraph :: "bool \<Rightarrow> int \<Rightarrow> operation" where
  "decideParagraph dec i sv =
     (case findIndex (\<lambda>p. index p = i) (paragraphEdits (state sv)) of
        None \<Rightarrow> (sv, [])
      | Some paragraphIndex \<Rightarrow>
          (let updatedParagraphEdits =
                 map (\<lambda>(j, p). if j = paragraphIndex then p\<lparr>approved := Some dec\<rparr> else p)
                   (enumerate 0 (paragraphEdits (state sv)))
           in and_then (updateState ((state sv)\<lparr>paragraphEdits := updatedParagraphEdits\<rparr>))
                emitParagraphUpdateMessage sv))"

definition approveParagraph :: "int \<Rightarrow> operation" where
  "approveParagraph i = decideParagraph True i"

definition declineParagraph :: "int \<Rightarrow> operation" where
  "declineParagraph i = decideParagraph False i"

text \<open>
  \<open>reconstructOriginalContent\<close>: the originals in the order of their indices, the blank ones
  left out, joined by an empty line.
\<close>

definition reconstructOriginalContent :: "ParagraphEdit list \<Rightarrow> string" where
  "reconstructOriginalContent edits =
     (if length edits = 0 then []
      else join [CHR 0x0A, CHR 0x0A]
             (filter (\<lambda>p. \<not> blank p) (map original (sort_key index edits))))"

definition syncParagraphEditsFromMessage :: "ParagraphEdit list \<Rightarrow> operation" where
  "syncParagraphEditsFromMessage edits sv =
     (if length edits > 0 then
        (let stored = originalContent (state sv);
             originalContentText =
               (if blank stored then reconstructOriginalContent edits else stored)
         in updateState ((state sv)
              \<lparr>paragraphEdits := edits,
               originalContent :=
                 (if originalContentText \<noteq> [] then originalContentText else stored)\<rparr>) sv)
      else (sv, []))"

subsection \<open>The next editor\<close>

text \<open>
  What the backend answers to \<open>nextEditor\<close>: the request fails, a status that is not ok, no
  body, or a stream of parsed events that ends or breaks with an error.
\<close>

datatype next_response =
    NextRejected "string option"
  | NextStatus nat string
  | NextNoBody
  | NextStream "stream_event list" "string option"

definition decisions_of :: "ParagraphEdit list \<Rightarrow> (int \<times> bool) list" where
  "decisions_of edits = map (\<lambda>p. (index p, approved p = Some True)) edits"

text \<open>The \<open>editor_complete\<close> branch of \<open>nextEditor\<close>.\<close>

definition next_editor_complete :: "utils \<Rightarrow> stream_data \<Rightarrow> operation" where
  "next_editor_complete U d sv =
     (let s1 = store_editor_info False d sv;
          newParagraphEdits =
            (case paragraph_edits d of
               Some entries \<Rightarrow>
                 paragraph_edits_of U (selectedEditors (state s1))
                   (originalContent (state s1)) d entries
             | None \<Rightarrow> []);
          s2 = (if truthy (original_content d)
                then s1\<lparr>state := (state s1)\<lparr>originalContent := the (original_content d)\<rparr>\<rparr>
                else s1);
          s3 = s2\<lparr>state := (state s2)\<lparr>paragraphEdits := newParagraphEdits\<rparr>\<rparr>
      in (s3, [Emit result (paragraphs_message s3 newParagraphEdits)]))"

text \<open>
  The loop over the events of the answer. The flag tells that an \<open>all_complete\<close> event made
  the operation return.
\<close>

fun nextEditor_events :: "utils \<Rightarrow> stream_event list \<Rightarrow> service \<Rightarrow> (service \<times> effect list) \<times> bool" where
  "nextEditor_events U [] sv = ((sv, []), False)"
| "nextEditor_events U (Raw s # evs) sv = nextEditor_events U evs sv"
| "nextEditor_events U (Data d # evs) sv =
     (if ev_type d = AllComplete then
        (let s1 = sv\<lparr>isLastEditor := True, currentEditorIndex := totalEditors sv\<rparr>
         in ((s1, [Emit update (paragraphs_message s1 (paragraphEdits (state s1)))]), True))
      else if ev_type d = EditorComplete then
        (let (s1, e1) = next_editor_complete U d sv;
             ((s2, e2), returned) = nextEditor_events U evs s1
         in ((s2, e1 @ e2), returned))
      else nextEditor_events U evs sv)"

definition nextEditor :: "utils \<Rightarrow> next_response \<Rightarrow> ParagraphEdit list \<Rightarrow> operation" where
  "nextEditor U response edits sv =
     (if \<not> truthy (threadId sv) then emit prompt (plain_message NoThreadId) sv
      else if \<not> allParagraphsDecided (paragraphEdits (state sv))
      then emit prompt (plain_message DecideAllBeforeNext) sv
      else
        and_then
          (signal (PostNext (threadId sv)
                     (map (\<lambda>p. p\<lparr>autoApproved := JBool (autoApproved p = JBool True),
                                  displayOriginal := None, displayEdited := None\<rparr>) edits)
                     (decisions_of edits)))
          (case response of
             NextRejected m \<Rightarrow> emit prompt (plain_message (NextEditorFailed (Rejected m)))
           | NextStatus st txt \<Rightarrow> emit prompt (plain_message (NextEditorFailed (HttpError st txt)))
           | NextNoBody \<Rightarrow> emit prompt (plain_message (NextEditorFailed NoReader))
           | NextStream evs err \<Rightarrow>
               (\<lambda>s. let ((s1, e1), returned) = nextEditor_events U evs s
                     in case err of
                          None \<Rightarrow> (s1, e1)
                        | Some m \<Rightarrow>
                            if returned then (s1, e1)
                            else (s1, e1 @ [Emit prompt
                                    (plain_message (NextEditorFailed (Rejected (Some m))))])))
          sv)"

subsection \<open>The final article\<close>

text \<open>
  What the backend answers to \<open>generateFinalArticle\<close>: the request fails, a status that is
  not ok, or a JSON object with or without \<open>final_article\<close>.
\<close>

datatype final_response =
    FinalRejected "string option"
  | FinalStatus nat string
  | FinalJson "string option"

definition generateFinalArticle :: "final_response \<Rightarrow> operation" where
  "generateFinalArticle response sv =
     (if \<not> allParagraphsDecided (paragraphEdits (state sv))
      then emit prompt (plain_message DecideAllBeforeFinal) sv
      else
        (let edits = paragraphEdits (state sv);
             stored = originalContent (state sv);
             originalContentText =
               (if blank stored then reconstructOriginalContent edits else stored);
             failed_with = (\<lambda>f. emit prompt (plain_message (FinalArticleFailed f)));
             attempt =
               (if blank originalContentText then failed_with NoOriginalContent
                else
                  and_then
                    (signal (PostFinal originalContentText
                               (map (\<lambda>p. (index p, original p, edited p, tags p)) edits)
                               (decisions_of edits)))
                    (case response of
                       FinalRejected m \<Rightarrow> failed_with (Rejected m)
                     | FinalStatus st txt \<Rightarrow> failed_with (HttpError st txt)
                     | FinalJson a \<Rightarrow>
                         if \<not> truthy a then failed_with NoFinalArticle
                         else
                           and_then
                             (\<lambda>s. emit result
                                     \<lparr>content = FinalArticle
                                        (map_option file_name (uploadedFile (state s)))
                                        (getSelectedEditorNames (selectedEditors (state s)))
                                        (the a),
                                      isHtml = Some True, editWorkflow = None\<rparr> s)
                             completeWorkflow))
         in and_then (\<lambda>s. (s\<lparr>isGeneratingFinal := True\<rparr>, [GeneratingFinal True]))
              (and_then attempt
                 (\<lambda>s. (s\<lparr>isGeneratingFinal := False\<rparr>, [GeneratingFinal False])))
              sv))"

subsection \<open>Reachable services\<close>

text \<open>
  A call of a method of the service, or of a callback of a subscription with the closure it
  runs in. The private methods count as calls too.
\<close>

datatype call =
    BeginWorkflow
  | BeginWorkflowWithEditors "string list"
  | HandleFileUpload File
  | HandleChatInput "intent_answer option" string "File option"
  | HandleNumericSelection numeric_selection
  | HandleOptOutAndProceed opt_out
  | ProceedToContentStep
  | ProcessWithContent
  | HandleEditorSelection "string list"
  | StreamNext stream_event stream_ctx
  | StreamError
  | StreamComplete
  | CancelWorkflow
  | CompleteWorkflow
  | ApproveParagraph int
  | DeclineParagraph int
  | SyncParagraphEditsFromMessage "ParagraphEdit list"
  | NextEditor next_response "ParagraphEdit list"
  | GenerateFinalArticle final_response

fun run :: "utils \<Rightarrow> call \<Rightarrow> operation" where
  "run U BeginWorkflow = beginWorkflow"
| "run U (BeginWorkflowWithEditors ids) = beginWorkflowWithEditors ids"
| "run U (HandleFileUpload f) = handleFileUpload U f"
| "run U (HandleChatInput a input f) = handleChatInput U a input f"
| "run U (HandleNumericSelection r) = handleNumericSelection r"
| "run U (HandleOptOutAndProceed r) = handleOptOutAndProceed r"
| "run U ProceedToContentStep = proceedToContentStep"
| "run U ProcessWithContent = processWithContent U"
| "run U (HandleEditorSelection ids) = handleEditorSelection ids"
| "run U (StreamNext ev ctx) = (\<lambda>sv. fst (processContent_next U ev ctx sv))"
| "run U StreamError = processContent_error"
| "run U StreamComplete = processContent_complete"
| "run U CancelWorkflow = cancelWorkflow"
| "run U CompleteWorkflow = completeWorkflow"
| "run U (ApproveParagraph i) = approveParagraph i"
| "run U (DeclineParagraph i) = declineParagraph i"
| "run U (SyncParagraphEditsFromMessage edits) = syncParagraphEditsFromMessage edits"
| "run U (NextEditor r edits) = nextEditor U r edits"
| "run U (GenerateFinalArticle r) = generateFinalArticle r"

text \<open>The services that calls lead to from the initial one.\<close>

inductive reachable :: "utils \<Rightarrow> service \<Rightarrow> bool" for U :: utils where
  reachable_initial: "reachable U initial_service"
| reachable_call: "reachable U sv \<Longrightarrow> reachable U (fst (run U c sv))"

text \<open>The brand alignment editor is among the selected editors.\<close>

definition brand_inv :: "service \<Rightarrow> bool" where
  "brand_inv sv = (''brand-alignment'' \<in> set (selectedEditors (state sv)))"

subsection \<open>Sample values\<close>

text \<open>
  Stand-ins for the utilities outside this file, to run the operations on concrete values:
  an editor's display name is its id, a file's text is its bytes, the content is one
  paragraph, strings are equal when they are the same, and a comparison gives one paragraph
  edit tagged with the editor names.
\<close>

definition sample_utils :: utils where
  "sample_utils =
     \<lparr>getEditorDisplayName = (\<lambda>i. i),
      normalizeEditorOrder = (\<lambda>ids. ids),
      normalizeContent = (\<lambda>s. s),
      extractFileText = (\<lambda>f. Some (file_bytes f)),
      splitIntoParagraphs = (\<lambda>s. [s]),
      validateStringEquality = (\<lambda>a b. a = b),
      createParagraphEditsFromComparison =
        (\<lambda>a b names. [\<lparr>index = 0, original = a, edited = b, tags = names,
                         autoApproved = JBool False, approved = None, editorial_feedback = None,
                         displayOriginal = None, displayEdited = None\<rparr>]),
      extractDocumentTitle = (\<lambda>s n. s)\<rparr>"

definition sample_paragraph :: "int \<Rightarrow> ParagraphEdit" where
  "sample_paragraph i =
     \<lparr>index = i, original = ''one'', edited = ''two'', tags = [], autoApproved = JBool False,
      approved = None, editorial_feedback = None, displayOriginal = None, displayEdited = None\<rparr>"

text \<open>A service with two undecided paragraph edits, of index 0 and 1.\<close>

definition sample_review :: service where
  "sample_review =
     fst (syncParagraphEditsFromMessage [sample_paragraph 0, sample_paragraph 1] initial_service)"

text \<open>A service that waits for the document, with the copy editor chosen.\<close>

definition sample_waiting :: service where
  "sample_waiting = fst (beginWorkflowWithEditors [''copy''] initial_service)"


text \<open>A closure of a stream for three editors.\<close>

definition sample_stream :: stream_ctx where
  "sample_stream =
     processContent_init sample_utils [''copy'', ''line'', ''brand-alignment'']
       ''Copy Editor, Line Editor, and PwC Brand Alignment Editor''"

definition sample_event :: "event_type \<Rightarrow> stream_data" where
  "sample_event t =
     \<lparr>ev_type = t, current = None, total = None, editor = None, ev_content = None,
      thread_id = None, current_editor = None, editor_index = None, total_editors = None,
      revised_content = None, final_revised = None, paragraph_edits = None,
      original_content = None, combined_feedback = None, ev_error = None\<rparr>"

text \<open>
  Two entries of a \<open>paragraph_edits\<close> array: one that gives nothing but an edited text equal
  to the first paragraph, one with an index, an original and a rejection.
\<close>

definition sample_entries :: "edit_entry list" where
  "sample_entries =
     [\<lparr>e_index = None, e_original = None, e_edited = Some '' first para '', e_tags = None,
       e_autoApproved = Absent, e_approved = Absent, e_editorial_feedback = None\<rparr>,
      \<lparr>e_index = Some 4, e_original = Some '' old '', e_edited = Some ''new'', e_tags = None,
       e_autoApproved = Absent, e_approved = JBool False, e_editorial_feedback = None\<rparr>]"

definition sample_final :: stream_data where
  "sample_final =
     (sample_event FinalComplete)
       \<lparr>paragraph_edits := Some sample_entries, original_content := Some ''first para ''\<rparr>"





text \<open>
  A paragraph in which the copy editor and the line editor flag the same word: the first
  feedback is undecided, the second approved.
\<close>

definition sample_flagged_twice :: ParagraphEdit where
  "sample_flagged_twice =
     \<lparr>index = 0, original = ''teh cat'', edited = ''the cat'', tags = [],
      autoApproved = JBool False, approved = None,
      editorial_feedback =
        Some [(''copy'', [\<lparr>fb_issue = Some ''teh'', fb_fix = Some ''the'', fb_approved = JNull\<rparr>]),
              (''line'', [\<lparr>fb_issue = Some ''teh'', fb_fix = Some ''the'',
                           fb_approved = JBool True\<rparr>])],
      displayOriginal = None, displayEdited = None\<rparr>"

section \<open>Properties of parseNumericSelection\<close>



























section \<open>Properties of the workflow service\<close>

lemma and_then_apply:
  "and_then f g sv = (fst (g (fst (f sv))), snd (f sv) @ snd (g (fst (f sv))))"
  by (simp add: and_then_def split_beta)

lemmas op_defs = and_then_apply updateState_def emit_def signal_def

text \<open>
  Claim C10. \<open>cancelWorkflow\<close> changes nothing, signals nothing and sends no message when the
  step is \<open>idle\<close> or \<open>processing\<close>; in every other step it sets the state to the default
  state, signals that the workflow is completed and sends the cancellation message as a
  prompt.
\<close>

theorem cancelWorkflow_effect:
  "(step (state sv) = idle \<or> step (state sv) = processing \<longrightarrow> cancelWorkflow sv = (sv, [])) \<and>
   (step (state sv) \<noteq> idle \<and> step (state sv) \<noteq> processing \<longrightarrow>
      cancelWorkflow sv =
        (sv\<lparr>state := getDefaultState\<rparr>,
         [WorkflowCompleted, Emit prompt (plain_message Cancelled)]))"
  by (simp add: cancelWorkflow_def op_defs)

theorem cancelWorkflow_effect_witness:
  "step (state initial_service) = idle \<and> cancelWorkflow initial_service = (initial_service, []) \<and>
   step (state (fst (beginWorkflow initial_service))) \<noteq> idle \<and>
   step (state (fst (beginWorkflow initial_service))) \<noteq> processing \<and>
   cancelWorkflow (fst (beginWorkflow initial_service)) =
     (initial_service, [WorkflowCompleted, Emit prompt (plain_message Cancelled)])"
proof -
  have a: "step (state initial_service) = idle"
    by (simp add: initial_service_def getDefaultState_def)
  have b: "step (state (fst (beginWorkflow initial_service))) = awaiting_editors"
    by (simp add: beginWorkflow_def op_defs initial_service_def getDefaultState_def)
  have c: "(fst (beginWorkflow initial_service))\<lparr>state := getDefaultState\<rparr> = initial_service"
    by (simp add: beginWorkflow_def op_defs initial_service_def)
  from a cancelWorkflow_effect[of initial_service]
  have "cancelWorkflow initial_service = (initial_service, [])" by simp
  moreover from b c cancelWorkflow_effect[of "fst (beginWorkflow initial_service)"]
  have "cancelWorkflow (fst (beginWorkflow initial_service)) =
     (initial_service, [WorkflowCompleted, Emit prompt (plain_message Cancelled)])" by simp
  ultimately show ?thesis using a b by simp
qed

lemma findIndex_None: "findIndex P xs = None \<longleftrightarrow> (\<forall>x \<in> set xs. \<not> P x)"
  by (simp add: findIndex_def list_ex_iff)

lemma findIndex_Some:
  "findIndex P xs = Some k \<Longrightarrow> k < length xs \<and> P (xs ! k) \<and> (\<forall>j < k. \<not> P (xs ! j))"
proof -
  assume "findIndex P xs = Some k"
  then have ex: "\<exists>x \<in> set xs. P x" and k: "k = length (takeWhile (\<lambda>x. \<not> P x) xs)"
    by (auto simp: findIndex_def list_ex_iff split: if_splits)
  from ex have lt: "length (takeWhile (\<lambda>x. \<not> P x) xs) < length xs"
    by (induction xs) auto
  then have "P (xs ! k)"
    unfolding k using nth_length_takeWhile[of "\<lambda>x. \<not> P x" xs] by simp
  moreover have "\<forall>j < k. \<not> P (xs ! j)"
  proof (intro allI impI)
    fix j assume "j < k"
    then have "j < length (takeWhile (\<lambda>x. \<not> P x) xs)" by (simp add: k)
    then have "takeWhile (\<lambda>x. \<not> P x) xs ! j = xs ! j"
      and "takeWhile (\<lambda>x. \<not> P x) xs ! j \<in> set (takeWhile (\<lambda>x. \<not> P x) xs)"
      by (rule takeWhile_nth, rule nth_mem)
    then show "\<not> P (xs ! j)" by (metis set_takeWhileD)
  qed
  ultimately show ?thesis using lt k by simp
qed

lemma map_enumerate_update:
  "k < length xs \<Longrightarrow>
   map (\<lambda>(j, p). if j = k then f p else p) (enumerate 0 xs) = xs[k := f (xs ! k)]"
  by (rule nth_equalityI) (simp_all add: nth_enumerate_eq nth_list_update)

lemma decideParagraph_none:
  "\<forall>p \<in> set (paragraphEdits (state sv)). index p \<noteq> i \<Longrightarrow> decideParagraph dec i sv = (sv, [])"
  using findIndex_None[of "\<lambda>p. index p = i" "paragraphEdits (state sv)"]
  by (simp add: decideParagraph_def)

lemma decideParagraph_some:
  assumes "\<exists>p \<in> set (paragraphEdits (state sv)). index p = i"
  shows "\<exists>k < length (paragraphEdits (state sv)).
           index (paragraphEdits (state sv) ! k) = i \<and>
           (\<forall>j < k. index (paragraphEdits (state sv) ! j) \<noteq> i) \<and>
           decideParagraph dec i sv =
             (let sv' = sv\<lparr>state := (state sv)\<lparr>paragraphEdits :=
                          (paragraphEdits (state sv))
                            [k := (paragraphEdits (state sv) ! k)\<lparr>approved := Some dec\<rparr>]\<rparr>\<rparr>
              in (sv', [Emit update (paragraphs_message sv' (paragraphEdits (state sv')))]))"
proof -
  let ?xs = "paragraphEdits (state sv)"
  from assms obtain k where k: "findIndex (\<lambda>p. index p = i) ?xs = Some k"
    using findIndex_None[of "\<lambda>p. index p = i" ?xs] by fastforce
  from findIndex_Some[OF k] have p: "k < length ?xs" "index (?xs ! k) = i"
    "\<forall>j < k. index (?xs ! j) \<noteq> i" by simp_all
  have "decideParagraph dec i sv =
          (let sv' = sv\<lparr>state := (state sv)\<lparr>paragraphEdits :=
                          ?xs[k := (?xs ! k)\<lparr>approved := Some dec\<rparr>]\<rparr>\<rparr>
           in (sv', [Emit update (paragraphs_message sv' (paragraphEdits (state sv')))]))"
    using k p(1)
    by (simp add: decideParagraph_def Let_def op_defs emitParagraphUpdateMessage_def
        map_enumerate_update[where f = "\<lambda>p. p\<lparr>approved := Some dec\<rparr>"])
  with p show ?thesis by blast
qed

text \<open>
  Claim C9. When no paragraph edit has index \<open>i\<close>, \<open>approveParagraph i\<close> and
  \<open>declineParagraph i\<close> leave the service as it is and send nothing. Otherwise the paragraph
  edit of index \<open>i\<close> (the first, at position \<open>k\<close>) gets \<open>approved\<close> true, respectively
  false; its other fields, the other paragraph edits and the other fields of the state stay
  as they are, and one update message is sent.
\<close>

theorem approve_decline_frame:
  "((\<forall>p \<in> set (paragraphEdits (state sv)). index p \<noteq> i) \<longrightarrow>
      approveParagraph i sv = (sv, []) \<and> declineParagraph i sv = (sv, [])) \<and>
   ((\<exists>p \<in> set (paragraphEdits (state sv)). index p = i) \<longrightarrow>
      (\<exists>k < length (paragraphEdits (state sv)).
         index (paragraphEdits (state sv) ! k) = i \<and>
         (\<forall>j < k. index (paragraphEdits (state sv) ! j) \<noteq> i) \<and>
         (\<forall>dec. (if dec then approveParagraph i sv else declineParagraph i sv) =
            (let sv' = sv\<lparr>state := (state sv)\<lparr>paragraphEdits :=
                          (paragraphEdits (state sv))
                            [k := (paragraphEdits (state sv) ! k)\<lparr>approved := Some dec\<rparr>]\<rparr>\<rparr>
             in (sv', [Emit update (paragraphs_message sv' (paragraphEdits (state sv')))])))))"
proof (intro conjI impI)
  assume "\<forall>p \<in> set (paragraphEdits (state sv)). index p \<noteq> i"
  then show "approveParagraph i sv = (sv, [])" "declineParagraph i sv = (sv, [])"
    by (simp_all add: approveParagraph_def declineParagraph_def decideParagraph_none)
next
  let ?xs = "paragraphEdits (state sv)"
  assume ex: "\<exists>p \<in> set ?xs. index p = i"
  from decideParagraph_some[OF ex, of True] obtain k where k: "k < length ?xs"
    "index (?xs ! k) = i" "\<forall>j < k. index (?xs ! j) \<noteq> i" by auto
  have "decideParagraph dec i sv =
            (let sv' = sv\<lparr>state := (state sv)\<lparr>paragraphEdits :=
                          ?xs[k := (?xs ! k)\<lparr>approved := Some dec\<rparr>]\<rparr>\<rparr>
             in (sv', [Emit update (paragraphs_message sv' (paragraphEdits (state sv')))]))" for dec
  proof -
    from decideParagraph_some[OF ex, of dec] obtain k' where k': "k' < length ?xs"
      "index (?xs ! k') = i" "\<forall>j < k'. index (?xs ! j) \<noteq> i"
      and eq: "decideParagraph dec i sv =
            (let sv' = sv\<lparr>state := (state sv)\<lparr>paragraphEdits :=
                          ?xs[k' := (?xs ! k')\<lparr>approved := Some dec\<rparr>]\<rparr>\<rparr>
             in (sv', [Emit update (paragraphs_message sv' (paragraphEdits (state sv')))]))"
      by auto
    have "\<not> k' < k" using k(3) k'(2) by auto
    moreover have "\<not> k < k'" using k'(3) k(2) by auto
    ultimately have "k' = k" by linarith
    with eq show ?thesis by simp
  qed
  then have "\<forall>dec. (if dec then approveParagraph i sv else declineParagraph i sv) =
            (let sv' = sv\<lparr>state := (state sv)\<lparr>paragraphEdits :=
                          ?xs[k := (?xs ! k)\<lparr>approved := Some dec\<rparr>]\<rparr>\<rparr>
             in (sv', [Emit update (paragraphs_message sv' (paragraphEdits (state sv')))]))"
    by (simp add: approveParagraph_def declineParagraph_def)
  with k show "\<exists>k < length ?xs. index (?xs ! k) = i \<and> (\<forall>j < k. index (?xs ! j) \<noteq> i) \<and>
         (\<forall>dec. (if dec then approveParagraph i sv else declineParagraph i sv) =
            (let sv' = sv\<lparr>state := (state sv)\<lparr>paragraphEdits :=
                          ?xs[k := (?xs ! k)\<lparr>approved := Some dec\<rparr>]\<rparr>\<rparr>
             in (sv', [Emit update (paragraphs_message sv' (paragraphEdits (state sv')))])))"
    by blast
qed

lemma sample_review_edits:
  "paragraphEdits (state sample_review) = [sample_paragraph 0, sample_paragraph 1]"
  by (simp add: sample_review_def syncParagraphEditsFromMessage_def updateState_def Let_def)

theorem approve_decline_frame_witness:
  "\<not> (\<exists>p \<in> set (paragraphEdits (state sample_review)). index p = 5) \<and>
   approveParagraph 5 sample_review = (sample_review, []) \<and>
   (\<exists>p \<in> set (paragraphEdits (state sample_review)). index p = 1) \<and>
   paragraphEdits (state (fst (declineParagraph 1 sample_review))) =
     [sample_paragraph 0, (sample_paragraph 1)\<lparr>approved := Some False\<rparr>]"
proof -
  let ?xs = "paragraphEdits (state sample_review)"
  have none: "\<forall>p \<in> set ?xs. index p \<noteq> 5"
    by (simp add: sample_review_edits sample_paragraph_def)
  have some: "\<exists>p \<in> set ?xs. index p = 1"
    by (simp add: sample_review_edits sample_paragraph_def)
  from none approve_decline_frame[of sample_review 5]
  have a: "approveParagraph 5 sample_review = (sample_review, [])"
    by blast
  from some approve_decline_frame[of sample_review 1] obtain k where
    k: "k < length ?xs" "index (?xs ! k) = 1"
    and d: "\<forall>dec. (if dec then approveParagraph 1 sample_review else declineParagraph 1 sample_review) =
            (let sv' = sample_review\<lparr>state := (state sample_review)\<lparr>paragraphEdits :=
                          ?xs[k := (?xs ! k)\<lparr>approved := Some dec\<rparr>]\<rparr>\<rparr>
             in (sv', [Emit update (paragraphs_message sv' (paragraphEdits (state sv')))]))"
    by blast
  from k have "k = 1"
    by (cases k) (simp_all add: sample_review_edits sample_paragraph_def)
  with d[rule_format, of False]
  have "paragraphEdits (state (fst (declineParagraph 1 sample_review))) =
     [sample_paragraph 0, (sample_paragraph 1)\<lparr>approved := Some False\<rparr>]"
    by (simp add: Let_def sample_review_edits)
  with none some a show ?thesis by blast
qed

lemma undecided_iff: "\<not> allParagraphsDecided edits \<longleftrightarrow> (\<exists>p \<in> set edits. approved p = None)"
  by (simp add: allParagraphsDecided_def list_all_iff)

text \<open>
  Claim C2. When some paragraph edit of the state has \<open>approved\<close> equal to null, so that
  \<open>allParagraphsDecided\<close> is false, \<open>generateFinalArticle\<close> and \<open>nextEditor\<close> each send one
  error message as a prompt, make no request to the backend and leave the service, and so
  the workflow state, as it is.
\<close>

theorem undecided_blocks_final_and_next:
  assumes "\<exists>p \<in> set (paragraphEdits (state sv)). approved p = None"
  shows "\<not> allParagraphsDecided (paragraphEdits (state sv)) \<and>
         generateFinalArticle final sv = (sv, [Emit prompt (plain_message DecideAllBeforeFinal)]) \<and>
         (\<exists>t. (t = NoThreadId \<or> t = DecideAllBeforeNext) \<and>
              nextEditor U answer edits sv = (sv, [Emit prompt (plain_message t)])) \<and>
         \<not> list_ex contacts_backend (snd (generateFinalArticle final sv)) \<and>
         \<not> list_ex contacts_backend (snd (nextEditor U answer edits sv))"
proof -
  from assms have u: "\<not> allParagraphsDecided (paragraphEdits (state sv))"
    by (simp add: undecided_iff)
  then have g: "generateFinalArticle final sv = (sv, [Emit prompt (plain_message DecideAllBeforeFinal)])"
    by (simp add: generateFinalArticle_def emit_def)
  from u have n: "nextEditor U answer edits sv =
      (sv, [Emit prompt (plain_message (if \<not> truthy (threadId sv) then NoThreadId else DecideAllBeforeNext))])"
    by (simp add: nextEditor_def emit_def)
  from u g n show ?thesis by auto
qed

theorem undecided_blocks_final_and_next_witness:
  "(\<exists>p \<in> set (paragraphEdits (state sample_review)). approved p = None) \<and>
   generateFinalArticle (FinalJson (Some ''text'')) sample_review =
     (sample_review, [Emit prompt (plain_message DecideAllBeforeFinal)]) \<and>
   fst (nextEditor sample_utils NextNoBody [] sample_review) = sample_review"
proof -
  have u: "\<exists>p \<in> set (paragraphEdits (state sample_review)). approved p = None"
    by (simp add: sample_review_edits sample_paragraph_def)
  from undecided_blocks_final_and_next[OF u, of "FinalJson (Some ''text'')" sample_utils NextNoBody "[]"]
  show ?thesis using u by auto
qed




section \<open>Properties of the stream of edits\<close>

lemma store_editor_info_state: "state (store_editor_info m d sv) = state sv"
  by (simp add: store_editor_info_def Let_def)

lemma dispatch_fst: "fst (dispatchResultsToChat a b c d e sv) = sv"
  by (simp add: dispatchResultsToChat_def Let_def)

lemma on_editor_complete_edits:
  "paragraph_edits d = Some entries \<Longrightarrow>
   paragraphEdits (state (fst (fst (on_editor_complete U d ctx sv)))) =
     paragraph_edits_of U (selectedIds ctx) (originalContent (state sv)) d entries"
  by (simp add: on_editor_complete_def Let_def store_editor_info_state)

lemma on_final_complete_edits:
  "paragraphEdits (state (fst (fst (on_final_complete U d ctx sv)))) =
     (case paragraph_edits d of
        Some entries \<Rightarrow> paragraph_edits_of U (selectedIds ctx) (originalContent (state sv)) d entries
      | None \<Rightarrow>
          if truthy (final_revised d) \<and> truthy (original_content d)
          then createParagraphEditsFromComparison U (the (original_content d))
                 (the (final_revised d)) (map (getEditorDisplayName U) (selectedIds ctx))
          else [])"
  by (simp add: on_final_complete_def Let_def split_beta dispatch_fst split: option.splits)

lemma next_editor_complete_edits:
  "paragraph_edits d = Some entries \<Longrightarrow>
   paragraphEdits (state (fst (next_editor_complete U d sv))) =
     paragraph_edits_of U (selectedEditors (state sv)) (originalContent (state sv)) d entries"
  by (simp add: next_editor_complete_def Let_def store_editor_info_state)

lemma paragraph_edits_of_length:
  "length (paragraph_edits_of U ids stored d entries) = length entries"
  by (simp add: paragraph_edits_of_def Let_def)

lemma paragraph_edits_of_nth:
  "k < length entries \<Longrightarrow>
   paragraph_edits_of U ids stored d entries ! k =
     paragraph_edit_of U (map (getEditorDisplayName U) ids)
       (if str_or (original_content d) stored \<noteq> []
        then splitIntoParagraphs U (str_or (original_content d) stored) else [])
       k (entries ! k)"
  by (simp add: paragraph_edits_of_def Let_def nth_enumerate_eq)

text \<open>
  Claim C1. An \<open>editor_complete\<close> or \<open>final_complete\<close> event with a \<open>paragraph_edits\<close> array
  stores one paragraph edit for each entry, in order. For the entry at position \<open>k\<close>: the index
  is the entry's index when it is given and not null, else \<open>k\<close>; the original is the trimmed
  original of the entry when that is not empty, else the trimmed paragraph at that index of
  \<open>splitIntoParagraphs\<close> of the event's original content (or of the stored one), or empty when
  there is no such paragraph; \<open>autoApproved\<close> is the entry's when it is given, else whether
  the original and the edited text are equal under \<open>validateStringEquality\<close>; and \<open>approved\<close>
  is true when \<open>autoApproved\<close> is true, else the entry's \<open>approved\<close> when it is given, else
  null.
\<close>

theorem paragraph_edits_from_event:
  assumes "paragraph_edits d = Some entries"
  shows "(ev_type d = EditorComplete \<or> ev_type d = FinalComplete \<longrightarrow>
            paragraphEdits (state (fst (fst (processContent_next U (Data d) ctx sv)))) =
              paragraph_edits_of U (selectedIds ctx) (originalContent (state sv)) d entries) \<and>
         paragraphEdits (state (fst (next_editor_complete U d sv))) =
           paragraph_edits_of U (selectedEditors (state sv)) (originalContent (state sv)) d entries \<and>
         length (paragraph_edits_of U ids stored d entries) = length entries \<and>
         (\<forall>k < length entries.
            (let e = entries ! k;
                 p = paragraph_edits_of U ids stored d entries ! k;
                 originalContentText = str_or (original_content d) stored;
                 paragraphs = (if originalContentText \<noteq> []
                               then splitIntoParagraphs U originalContentText else [])
             in index p = (case e_index e of Some i \<Rightarrow> i | None \<Rightarrow> int k) \<and>
                original p =
                  (if trimmed_or_empty (e_original e) \<noteq> [] then trimmed_or_empty (e_original e)
                   else if 0 \<le> index p \<and> index p < int (length paragraphs)
                        then trim (paragraphs ! nat (index p)) else []) \<and>
                edited p = trimmed_or_empty (e_edited e) \<and>
                autoApproved p =
                  (case e_autoApproved e of
                     Absent \<Rightarrow> JBool (validateStringEquality U (original p) (edited p))
                   | given \<Rightarrow> given) \<and>
                approved p =
                  (if autoApproved p = JBool True then Some True
                   else (case e_approved e of JBool b \<Rightarrow> Some b | _ \<Rightarrow> None))))"
proof (intro conjI impI allI)
  assume "ev_type d = EditorComplete \<or> ev_type d = FinalComplete"
  then show "paragraphEdits (state (fst (fst (processContent_next U (Data d) ctx sv)))) =
              paragraph_edits_of U (selectedIds ctx) (originalContent (state sv)) d entries"
    using assms on_editor_complete_edits[OF assms, of U ctx sv] on_final_complete_edits[of U d ctx sv]
    by (auto simp: processContent_next_def)
next
  show "paragraphEdits (state (fst (next_editor_complete U d sv))) =
           paragraph_edits_of U (selectedEditors (state sv)) (originalContent (state sv)) d entries"
    by (rule next_editor_complete_edits[OF assms])
next
  show "length (paragraph_edits_of U ids stored d entries) = length entries"
    by (rule paragraph_edits_of_length)
next
  fix k assume "k < length entries"
  then show "(let e = entries ! k;
                 p = paragraph_edits_of U ids stored d entries ! k;
                 originalContentText = str_or (original_content d) stored;
                 paragraphs = (if originalContentText \<noteq> []
                               then splitIntoParagraphs U originalContentText else [])
             in index p = (case e_index e of Some i \<Rightarrow> i | None \<Rightarrow> int k) \<and>
                original p =
                  (if trimmed_or_empty (e_original e) \<noteq> [] then trimmed_or_empty (e_original e)
                   else if 0 \<le> index p \<and> index p < int (length paragraphs)
                        then trim (paragraphs ! nat (index p)) else []) \<and>
                edited p = trimmed_or_empty (e_edited e) \<and>
                autoApproved p =
                  (case e_autoApproved e of
                     Absent \<Rightarrow> JBool (validateStringEquality U (original p) (edited p))
                   | given \<Rightarrow> given) \<and>
                approved p =
                  (if autoApproved p = JBool True then Some True
                   else (case e_approved e of JBool b \<Rightarrow> Some b | _ \<Rightarrow> None)))"
    by (simp add: paragraph_edits_of_nth paragraph_edit_of_def Let_def split: jsflag.splits)
      (auto split: option.splits)
qed

theorem paragraph_edits_from_event_witness:
  "paragraph_edits sample_final = Some sample_entries \<and>
   (ev_type sample_final = EditorComplete \<or> ev_type sample_final = FinalComplete) \<and>
   map (\<lambda>p. (index p, original p, edited p, autoApproved p, approved p))
     (paragraphEdits (state (fst (fst (processContent_next sample_utils (Data sample_final)
                                         sample_stream initial_service))))) =
     [(0, ''first para'', ''first para'', JBool True, Some True),
      (4, ''old'', ''new'', JBool False, Some False)]"
proof -
  have h: "paragraph_edits sample_final = Some sample_entries"
    by (simp add: sample_final_def sample_event_def)
  have t: "ev_type sample_final = EditorComplete \<or> ev_type sample_final = FinalComplete"
    by (simp add: sample_final_def sample_event_def)
  have v: "map (\<lambda>p. (index p, original p, edited p, autoApproved p, approved p))
             (paragraph_edits_of sample_utils (selectedIds sample_stream)
                (originalContent (state initial_service)) sample_final sample_entries) =
           [(0, ''first para'', ''first para'', JBool True, Some True),
            (4, ''old'', ''new'', JBool False, Some False)]"
    by code_simp
  from paragraph_edits_from_event[OF h, of sample_utils sample_stream initial_service] t
  have "paragraphEdits (state (fst (fst (processContent_next sample_utils (Data sample_final)
                                         sample_stream initial_service)))) =
        paragraph_edits_of sample_utils (selectedIds sample_stream)
          (originalContent (state initial_service)) sample_final sample_entries"
    by blast
  with h t v show ?thesis by simp
qed


lemma on_editor_complete_selected:
  "selectedEditors (state (fst (fst (on_editor_complete U d ctx sv)))) = selectedEditors (state sv)"
  by (simp add: on_editor_complete_def Let_def split_beta store_editor_info_state
      split: option.splits)

lemma on_final_complete_selected:
  "selectedEditors (state (fst (fst (on_final_complete U d ctx sv)))) = selectedEditors (state sv)"
  by (simp add: on_final_complete_def Let_def split_beta dispatch_fst)

lemma next_selectedEditors:
  "selectedEditors (state (fst (fst (processContent_next U ev ctx sv)))) = selectedEditors (state sv)"
  by (cases ev)
    (simp_all add: processContent_next_def on_editor_progress_def on_editor_error_def
      on_editor_complete_selected on_final_complete_selected Let_def)


lemma with_brand_id: "''brand-alignment'' \<in> set ids \<Longrightarrow> with_brand ids = ids"
  by (simp add: with_brand_def)




section \<open>Properties of the workflow steps and of the selection\<close>

lemma with_brand_has: "''brand-alignment'' \<in> set (with_brand ids)"
  by (simp add: with_brand_def)

lemma with_brand_nonempty: "with_brand ids \<noteq> []"
  using with_brand_has[of ids] by auto

lemma with_brand_idem: "with_brand (with_brand ids) = with_brand ids"
  by (simp add: with_brand_id with_brand_has)

lemma beginWorkflow_state: "state (fst (beginWorkflow sv)) = getDefaultState\<lparr>step := awaiting_editors\<rparr>"
  by (simp add: beginWorkflow_def op_defs)

lemma beginWorkflowWithEditors_state:
  "state (fst (beginWorkflowWithEditors ids sv)) =
     (let valid = filter (\<lambda>i. i \<in> set (map opt_id editorOptions)) ids
      in if valid = [] then getDefaultState\<lparr>step := awaiting_editors\<rparr>
         else getDefaultState\<lparr>step := awaiting_content, selectedEditors := with_brand valid\<rparr>)"
  by (cases ids) (simp_all add: beginWorkflowWithEditors_def beginWorkflow_state Let_def op_defs)

lemma completeWorkflow_state: "state (fst (completeWorkflow sv)) = getDefaultState"
  by (simp add: completeWorkflow_def op_defs)

lemma cancelWorkflow_state:
  "state (fst (cancelWorkflow sv)) =
     (if step (state sv) = idle \<or> step (state sv) = processing then state sv else getDefaultState)"
  by (simp add: cancelWorkflow_def op_defs)

lemma proceedToContentStep_state:
  "state (fst (proceedToContentStep sv)) =
     (state sv)\<lparr>selectedEditors := with_brand (selectedEditors (state sv)), step := awaiting_content\<rparr>"
  by (simp add: proceedToContentStep_def Let_def op_defs with_brand_nonempty)

lemma handleEditorSelection_state:
  "state (fst (handleEditorSelection ids sv)) =
     (if step (state sv) = awaiting_editors
      then (state sv)\<lparr>selectedEditors := with_brand ids, step := awaiting_content\<rparr>
      else state sv)"
  by (simp add: handleEditorSelection_def Let_def and_then_apply updateState_def
      with_brand_nonempty proceedToContentStep_state with_brand_idem)

lemma processWithContent_state:
  "state (fst (processWithContent U sv)) =
     (case content_to_process U sv of
        None \<Rightarrow> getDefaultState
      | Some t \<Rightarrow> (state sv)\<lparr>originalContent := t, step := processing\<rparr>)"
  by (simp add: processWithContent_def Let_def and_then_apply updateState_def emit_def
      signal_def completeWorkflow_state split: option.splits)

lemma content_to_process_upload:
  "content_to_process U (sv\<lparr>state := (state sv)\<lparr>uploadedFile := Some f\<rparr>\<rparr>) =
     (let stored = originalContent (state sv);
          t = (if stored = [] then map_option (normalizeContent U) (extractFileText U f)
               else Some stored)
      in case t of None \<Rightarrow> None | Some t' \<Rightarrow> if blank t' then None else Some t')"
  by (simp add: content_to_process_def Let_def)

lemma handleFileUpload_state:
  "state (fst (handleFileUpload U f sv)) =
     (if step (state sv) \<noteq> awaiting_content then state sv
      else (case content_to_process U (sv\<lparr>state := (state sv)\<lparr>uploadedFile := Some f\<rparr>\<rparr>) of
              None \<Rightarrow> getDefaultState
            | Some t \<Rightarrow> (state sv)\<lparr>uploadedFile := Some f, originalContent := t, step := processing\<rparr>))"
  by (simp add: handleFileUpload_def and_then_apply updateState_def processWithContent_state
      split: option.splits)

lemma showInvalidSelectionError_state: "state (fst (showInvalidSelectionError sv)) = state sv"
  by (simp add: showInvalidSelectionError_def emit_def)

lemma handleNumericSelection_state:
  "state (fst (handleNumericSelection res sv)) =
     (if invalidIndices res = [] \<and> selectedIndices res \<noteq> []
      then (state sv)\<lparr>selectedEditors :=
             with_brand (map opt_id (filter opt_selected
               (map (\<lambda>(i, editor). editor\<lparr>opt_selected := (i + 1) \<in> set (selectedIndices res)\<rparr>)
                  (enumerate 0 editorOptions))))\<rparr>
      else state sv)"
  by (simp add: handleNumericSelection_def Let_def op_defs showInvalidSelectionError_state)

lemma handleOptOutAndProceed_state:
  "state (fst (handleOptOutAndProceed res sv)) =
     (state sv)\<lparr>selectedEditors :=
        with_brand (map opt_id (filter opt_selected
          (map (\<lambda>(i, editor).
                  if opt_id editor = ''brand-alignment'' then editor\<lparr>opt_selected := True\<rparr>
                  else editor\<lparr>opt_selected := (i + 1) \<notin> set (optedOut res)\<rparr>)
             (enumerate 0 editorOptions))))\<rparr>"
  by (simp add: handleOptOutAndProceed_def Let_def op_defs)

lemma default_brand: "''brand-alignment'' \<in> set (selectedEditors getDefaultState)"
  by (simp add: getDefaultState_def)

lemma brand_beginWorkflow: "brand_inv (fst (beginWorkflow sv))"
  by (simp add: brand_inv_def beginWorkflow_state default_brand)

lemma brand_beginWorkflowWithEditors: "brand_inv (fst (beginWorkflowWithEditors ids sv))"
  by (simp add: brand_inv_def beginWorkflowWithEditors_state Let_def default_brand with_brand_has)

lemma brand_completeWorkflow: "brand_inv (fst (completeWorkflow sv))"
  by (simp add: brand_inv_def completeWorkflow_state default_brand)

lemma brand_cancelWorkflow: "brand_inv sv \<Longrightarrow> brand_inv (fst (cancelWorkflow sv))"
  by (simp add: brand_inv_def cancelWorkflow_state default_brand)

lemma brand_proceedToContentStep: "brand_inv (fst (proceedToContentStep sv))"
  by (simp add: brand_inv_def proceedToContentStep_state with_brand_has)

lemma brand_handleEditorSelection: "brand_inv sv \<Longrightarrow> brand_inv (fst (handleEditorSelection ids sv))"
  by (simp add: brand_inv_def handleEditorSelection_state with_brand_has)

lemma brand_processWithContent: "brand_inv sv \<Longrightarrow> brand_inv (fst (processWithContent U sv))"
  by (simp add: brand_inv_def processWithContent_state default_brand split: option.splits)

lemma brand_handleFileUpload: "brand_inv sv \<Longrightarrow> brand_inv (fst (handleFileUpload U f sv))"
  by (simp add: brand_inv_def handleFileUpload_state default_brand split: option.splits)

lemma brand_handleNumericSelection: "brand_inv sv \<Longrightarrow> brand_inv (fst (handleNumericSelection res sv))"
  by (simp add: brand_inv_def handleNumericSelection_state with_brand_has)

lemma brand_handleOptOutAndProceed: "brand_inv (fst (handleOptOutAndProceed res sv))"
  by (simp add: brand_inv_def handleOptOutAndProceed_state with_brand_has)

lemma brand_showInvalidSelectionError: "brand_inv sv \<Longrightarrow> brand_inv (fst (showInvalidSelectionError sv))"
  by (simp add: brand_inv_def showInvalidSelectionError_state)

lemma brand_and_then_signal:
  "brand_inv (fst (f sv)) \<Longrightarrow> brand_inv (fst (and_then (signal e) f sv))"
  by (simp add: and_then_apply signal_def)

lemma brand_handleChatInput: "brand_inv sv \<Longrightarrow> brand_inv (fst (handleChatInput U a input f sv))"
  by (auto simp: handleChatInput_def Let_def emit_def brand_and_then_signal
      brand_beginWorkflow brand_beginWorkflowWithEditors brand_proceedToContentStep
      brand_cancelWorkflow brand_handleNumericSelection brand_showInvalidSelectionError
      brand_handleFileUpload
      split: option.splits)

lemma brand_stream_next: "brand_inv sv \<Longrightarrow> brand_inv (fst (fst (processContent_next U ev ctx sv)))"
  by (simp add: brand_inv_def next_selectedEditors)

lemma brand_stream_error: "brand_inv (fst (processContent_error sv))"
  by (simp add: processContent_error_def and_then_apply emit_def brand_completeWorkflow)

lemma brand_decideParagraph: "brand_inv sv \<Longrightarrow> brand_inv (fst (decideParagraph dec i sv))"
  by (simp add: brand_inv_def decideParagraph_def Let_def op_defs emitParagraphUpdateMessage_def
      split: option.splits)

lemma brand_sync: "brand_inv sv \<Longrightarrow> brand_inv (fst (syncParagraphEditsFromMessage edits sv))"
  by (simp add: brand_inv_def syncParagraphEditsFromMessage_def Let_def updateState_def)

lemma next_editor_complete_selected:
  "selectedEditors (state (fst (next_editor_complete U d sv))) = selectedEditors (state sv)"
  by (simp add: next_editor_complete_def Let_def store_editor_info_state)

lemma nextEditor_events_selected:
  "selectedEditors (state (fst (fst (nextEditor_events U evs sv)))) = selectedEditors (state sv)"
proof (induction U evs sv rule: nextEditor_events.induct)
  case (3 U d evs sv)
  show ?case
  proof (cases "ev_type d = AllComplete")
    case True
    then show ?thesis by (simp add: Let_def)
  next
    case False
    note na = this
    show ?thesis
    proof (cases "ev_type d = EditorComplete")
      case True
      obtain s1 e1 where n: "next_editor_complete U d sv = (s1, e1)"
        by (cases "next_editor_complete U d sv")
      then have "selectedEditors (state s1) = selectedEditors (state sv)"
        using next_editor_complete_selected[of U d sv] by simp
      with na True n "3.IH"(1)[OF na True n[symmetric]] show ?thesis
        by (simp add: split_beta)
    next
      case False
      with na "3.IH"(2) show ?thesis by simp
    qed
  qed
qed simp_all

lemma brand_nextEditor: "brand_inv sv \<Longrightarrow> brand_inv (fst (nextEditor U r edits sv))"
  by (cases r)
    (auto simp: brand_inv_def nextEditor_def emit_def and_then_apply signal_def split_beta
      nextEditor_events_selected split: option.splits)

lemma brand_generateFinalArticle: "brand_inv sv \<Longrightarrow> brand_inv (fst (generateFinalArticle r sv))"
  by (cases r)
    (auto simp: brand_inv_def generateFinalArticle_def Let_def emit_def and_then_apply signal_def
      completeWorkflow_state default_brand)

lemma brand_run: "brand_inv sv \<Longrightarrow> brand_inv (fst (run U c sv))"
  by (cases c)
    (simp_all add: brand_beginWorkflow brand_beginWorkflowWithEditors brand_handleFileUpload
      brand_handleChatInput brand_handleNumericSelection brand_handleOptOutAndProceed
      brand_proceedToContentStep brand_processWithContent brand_handleEditorSelection
      brand_stream_next brand_stream_error brand_completeWorkflow brand_cancelWorkflow
      brand_decideParagraph brand_sync brand_nextEditor brand_generateFinalArticle
      processContent_complete_def approveParagraph_def declineParagraph_def)

lemma reachable_brand: "reachable U sv \<Longrightarrow> brand_inv sv"
proof (induction rule: reachable.induct)
  case reachable_initial
  show ?case by (simp add: brand_inv_def initial_service_def default_brand)
next
  case (reachable_call sv c)
  then show ?case by (simp add: brand_run)
qed

text \<open>
  Claim C8. Every reachable service has \<open>brand-alignment\<close> among its selected editors: the
  default state has it, and each operation that replaces the list
  (\<open>beginWorkflowWithEditors\<close>, \<open>handleNumericSelection\<close>, \<open>handleOptOutAndProceed\<close>,
  \<open>proceedToContentStep\<close>, \<open>handleEditorSelection\<close>) stores the incoming selection with
  \<open>brand-alignment\<close> appended when the selection lacks it.
\<close>

theorem brand_alignment_always_selected:
  "(reachable U sv \<longrightarrow> ''brand-alignment'' \<in> set (selectedEditors (state sv))) \<and>
   ''brand-alignment'' \<in> set (selectedEditors getDefaultState) \<and>
   with_brand ids =
     (if ''brand-alignment'' \<in> set ids then ids else ids @ [''brand-alignment'']) \<and>
   selectedEditors (state (fst (beginWorkflowWithEditors ids sv))) =
     (let valid = filter (\<lambda>i. i \<in> set (map opt_id editorOptions)) ids
      in if valid = [] then selectedEditors getDefaultState else with_brand valid) \<and>
   selectedEditors (state (fst (handleNumericSelection res sv))) =
     (if invalidIndices res = [] \<and> selectedIndices res \<noteq> []
      then with_brand (map opt_id (filter opt_selected
             (map (\<lambda>(i, editor). editor\<lparr>opt_selected := (i + 1) \<in> set (selectedIndices res)\<rparr>)
                (enumerate 0 editorOptions))))
      else selectedEditors (state sv)) \<and>
   selectedEditors (state (fst (handleOptOutAndProceed out sv))) =
     with_brand (map opt_id (filter opt_selected
       (map (\<lambda>(i, editor).
               if opt_id editor = ''brand-alignment'' then editor\<lparr>opt_selected := True\<rparr>
               else editor\<lparr>opt_selected := (i + 1) \<notin> set (optedOut out)\<rparr>)
          (enumerate 0 editorOptions)))) \<and>
   selectedEditors (state (fst (proceedToContentStep sv))) =
     with_brand (selectedEditors (state sv)) \<and>
   selectedEditors (state (fst (handleEditorSelection ids sv))) =
     (if step (state sv) = awaiting_editors then with_brand ids else selectedEditors (state sv))"
proof -
  have "reachable U sv \<longrightarrow> ''brand-alignment'' \<in> set (selectedEditors (state sv))"
    using reachable_brand[of U sv] by (simp add: brand_inv_def)
  moreover have "selectedEditors (state (fst (beginWorkflowWithEditors ids sv))) =
     (let valid = filter (\<lambda>i. i \<in> set (map opt_id editorOptions)) ids
      in if valid = [] then selectedEditors getDefaultState else with_brand valid)"
    by (simp add: beginWorkflowWithEditors_state Let_def)
  moreover have "selectedEditors (state (fst (handleNumericSelection res sv))) =
     (if invalidIndices res = [] \<and> selectedIndices res \<noteq> []
      then with_brand (map opt_id (filter opt_selected
             (map (\<lambda>(i, editor). editor\<lparr>opt_selected := (i + 1) \<in> set (selectedIndices res)\<rparr>)
                (enumerate 0 editorOptions))))
      else selectedEditors (state sv))"
    by (simp add: handleNumericSelection_state)
  moreover have "selectedEditors (state (fst (handleOptOutAndProceed out sv))) =
     with_brand (map opt_id (filter opt_selected
       (map (\<lambda>(i, editor).
               if opt_id editor = ''brand-alignment'' then editor\<lparr>opt_selected := True\<rparr>
               else editor\<lparr>opt_selected := (i + 1) \<notin> set (optedOut out)\<rparr>)
          (enumerate 0 editorOptions))))"
    by (simp add: handleOptOutAndProceed_state)
  moreover have "selectedEditors (state (fst (proceedToContentStep sv))) =
     with_brand (selectedEditors (state sv))"
    by (simp add: proceedToContentStep_state)
  moreover have "selectedEditors (state (fst (handleEditorSelection ids sv))) =
     (if step (state sv) = awaiting_editors then with_brand ids else selectedEditors (state sv))"
    by (simp add: handleEditorSelection_state)
  ultimately show ?thesis
    using default_brand by (simp add: with_brand_def)
qed

lemma sample_waiting_reachable: "reachable U sample_waiting"
  unfolding sample_waiting_def
  using reachable_call[OF reachable_initial, of U "BeginWorkflowWithEditors [''copy'']"]
  by simp

theorem brand_alignment_always_selected_witness:
  "reachable sample_utils sample_waiting \<and>
   selectedEditors (state sample_waiting) = [''copy'', ''brand-alignment''] \<and>
   ''brand-alignment'' \<in> set (selectedEditors (state sample_waiting))"
proof -
  have r: "reachable sample_utils sample_waiting"
    by (rule sample_waiting_reachable)
  have s: "selectedEditors (state sample_waiting) = [''copy'', ''brand-alignment'']"
    by code_simp
  from r brand_alignment_always_selected[of sample_utils sample_waiting]
  have "''brand-alignment'' \<in> set (selectedEditors (state sample_waiting))"
    by blast
  with r s show ?thesis by simp
qed




section \<open>Properties of highlightAllFeedbacks\<close>

lemma highlight_without_feedback:
  "editorial_feedback p = None \<or> editorial_feedback p = Some [] \<Longrightarrow>
   highlightAllFeedbacks (Some p) = (stripHtmlSpans (original p), stripHtmlSpans (edited p))"
  by (auto simp: highlightAllFeedbacks_def Let_def sort_desc_def)

text \<open>
  Claim C5 on a paragraph in which two feedbacks flag the same word. The second replacement
  uses the positions found before the first one, so it cuts the span that the first one
  put in: the original and the edited text end up with the rest of a broken tag,
  \<^verbatim>\<open>an class="highlight-yellow">\<close>, in their text.
\<close>

theorem highlight_flagged_twice:
  "highlightAllFeedbacks (Some sample_flagged_twice) =
     (''<span class='' @ [CHR 0x22] @ ''strikeout highlight-yellow'' @ [CHR 0x22] @
        ''>teh</span>an class='' @ [CHR 0x22] @ ''highlight-yellow'' @ [CHR 0x22] @
        ''>teh</span> cat'',
      ''<span class='' @ [CHR 0x22] @ ''highlight-green'' @ [CHR 0x22] @
        ''>the</span>an class='' @ [CHR 0x22] @ ''highlight-yellow'' @ [CHR 0x22] @
        ''>the</span> cat'')"
  by code_simp

end
